theory Spec2Isabelle
  imports Complex_Main "HOL-Library.Word" "HOL-Library.Signed_Division"
begin

section \<open>Sustainability scoring engine of the green scheduling plugin\<close>

text \<open>
  A shallow embedding of the Go packages \<^verbatim>\<open>sustainabilityscore\<close> /
  \<^verbatim>\<open>sustainabilityprofile\<close> (decay-weighted scoring model), \<^verbatim>\<open>greenscheduling\<close>
  (score orchestration and batch normalisation), \<^verbatim>\<open>sicparams\<close> (query parameter
  builder) and \<^verbatim>\<open>sicclient\<close> (token manager).

  Conventions of the embedding:
  \<^item> a finite \<^verbatim>\<open>float64\<close> is a \<^typ>\<open>real\<close>. The scoring functions are given twice:
    with exact arithmetic, for the structure of the score, and with the rounding of
    every floating-point operation made explicit, for the properties that depend
    on it. Infinities and NaN are not represented;
  \<^item> \<^verbatim>\<open>int64\<close> is \<^typ>\<open>64 word\<close>, read as two's complement by \<^term>\<open>sint\<close>;
  \<^item> a run-time panic is a value \<open>Inl\<close> of a sum type;
  \<^item> a \<^verbatim>\<open>[]string\<close> held in an \<^verbatim>\<open>interface{}\<close> is a reference into an explicit
    store of backing arrays, because the code mutates it through aliases.
\<close>

subsection \<open>Instants and durations (package time)\<close>

text \<open>
  An instant is a count of nanoseconds. \<^verbatim>\<open>Time.Sub\<close> yields an \<^verbatim>\<open>int64\<close> number of
  nanoseconds and saturates at the ends of that range; \<^verbatim>\<open>Duration.Hours\<close> converts
  to a floating-point number of hours.
\<close>

type_synonym Time = int
type_synonym Duration = int

definition maxDuration :: Duration where
  "maxDuration = 2 ^ 63 - 1"

definition minDuration :: Duration where
  "minDuration = - (2 ^ 63)"

definition Sub :: "Time \<Rightarrow> Time \<Rightarrow> Duration" where
  "Sub t u =
     (let d = t - u
      in if maxDuration < d then maxDuration
         else if d < minDuration then minDuration
         else d)"

definition Hours :: "Duration \<Rightarrow> real" where
  "Hours d = real_of_int d / 3600000000000"

definition After :: "Time \<Rightarrow> Time \<Rightarrow> bool" where
  "After t u = (u < t)"

subsection \<open>Decay-weighted scoring model\<close>

record SustainabilityWeights =
  CO2DecayWeight :: real
  TotalCO2Weight :: real
  CostWeight :: real
  DecayRate :: real

definition NewSustainabilityWeights :: "real \<Rightarrow> real \<Rightarrow> real \<Rightarrow> real \<Rightarrow> SustainabilityWeights" where
  "NewSustainabilityWeights co2DecayWeight totalCO2Weight costWeight decayRate =
     \<lparr>CO2DecayWeight = co2DecayWeight, TotalCO2Weight = totalCO2Weight,
      CostWeight = costWeight, SustainabilityWeights.DecayRate = decayRate\<rparr>"

record DecayParameters =
  LatestTime :: Time
  DecayRate :: real

definition NewDecayParameters :: "Time \<Rightarrow> real \<Rightarrow> DecayParameters" where
  "NewDecayParameters latestTime decayRate =
     \<lparr>LatestTime = latestTime, DecayParameters.DecayRate = decayRate\<rparr>"

record EmissionDataPoint =
  Co2 :: real
  Time :: Time

definition NewEmissionDataPoint :: "real \<Rightarrow> Time \<Rightarrow> EmissionDataPoint" where
  "NewEmissionDataPoint co2 timestamp = \<lparr>Co2 = co2, Time = timestamp\<rparr>"

text \<open>The local \<^verbatim>\<open>timeDifference\<close> of \<^verbatim>\<open>CalculateDecayFactor\<close>, in hours.\<close>

definition timeDifference :: "EmissionDataPoint \<Rightarrow> DecayParameters \<Rightarrow> real" where
  "timeDifference e params = Hours (Sub (LatestTime params) (Time e))"

definition CalculateDecayFactor :: "EmissionDataPoint \<Rightarrow> DecayParameters \<Rightarrow> real" where
  "CalculateDecayFactor e params =
     (if timeDifference e params \<ge> 0
      then exp (- DecayParameters.DecayRate params * timeDifference e params)
           / (1 + exp (- DecayParameters.DecayRate params * timeDifference e params))
      else 1)"

record SustainabilityProfile =
  Emissions :: "EmissionDataPoint list"
  TotalCo2 :: real
  TotalCost :: real

definition NewSustainabilityProfile ::
  "EmissionDataPoint list \<Rightarrow> real \<Rightarrow> real \<Rightarrow> SustainabilityProfile" where
  "NewSustainabilityProfile emissions totalCo2 totalCost =
     \<lparr>Emissions = emissions, TotalCo2 = totalCo2, TotalCost = totalCost\<rparr>"

text \<open>The first loop of \<^verbatim>\<open>calculateCO2WeightedScore\<close>: the latest timestamp.\<close>

definition latestTimeLoop :: "EmissionDataPoint list \<Rightarrow> Time \<Rightarrow> Time" where
  "latestTimeLoop emissions seed =
     fold (\<lambda>emission latestTime.
             if After (Time emission) latestTime then Time emission else latestTime)
          emissions seed"

text \<open>The second loop: the running sum \<^verbatim>\<open>weightedCO2\<close>.\<close>

definition weightedCO2Loop :: "EmissionDataPoint list \<Rightarrow> Time \<Rightarrow> real \<Rightarrow> real \<Rightarrow> real" where
  "weightedCO2Loop emissions latestTime decayRate acc =
     fold (\<lambda>emission weightedCO2.
             weightedCO2
             + CalculateDecayFactor emission (NewDecayParameters latestTime decayRate)
               * Co2 emission)
          emissions acc"

definition calculateCO2WeightedScore :: "SustainabilityProfile \<Rightarrow> real \<Rightarrow> real \<Rightarrow> real" where
  "calculateCO2WeightedScore data co2Weight decayRate =
     (let n = length (Emissions data)
      in if n = 0 then 0
         else
           (let latestTime = latestTimeLoop (Emissions data) (Time (Emissions data ! 0));
                weightedCO2 = weightedCO2Loop (Emissions data) latestTime decayRate 0
            in co2Weight * weightedCO2))"

definition calculateTotalCO2WeightedScore :: "SustainabilityProfile \<Rightarrow> real \<Rightarrow> real" where
  "calculateTotalCO2WeightedScore data totalCO2Weight = totalCO2Weight * TotalCo2 data"

definition calculateCostWeightedScore :: "SustainabilityProfile \<Rightarrow> real \<Rightarrow> real" where
  "calculateCostWeightedScore data costWeight = costWeight / (1 + TotalCost data)"

definition CalculateScore :: "SustainabilityProfile \<Rightarrow> SustainabilityWeights \<Rightarrow> real" where
  "CalculateScore data weights =
     (let co2WeightedScore =
            calculateCO2WeightedScore data (CO2DecayWeight weights) (SustainabilityWeights.DecayRate weights);
          totalCO2WeightedScore = calculateTotalCO2WeightedScore data (TotalCO2Weight weights);
          costWeightedScore = calculateCostWeightedScore data (CostWeight weights)
      in co2WeightedScore + totalCO2WeightedScore + costWeightedScore)"

subsection \<open>The scoring functions with explicit float64 rounding\<close>

text \<open>
  IEEE 754 computes every operation as the exact result rounded into the format.
  \<open>rnd\<close> is that rounding and \<open>F\<close> the set of representable values;
  \<open>rounding F rnd\<close> holds the three properties of it that the proofs use: the
  result is representable, a representable value is left alone, and rounding is
  monotone. Round-to-nearest-even of binary64 has them wherever the exact result
  is within the finite range; beyond it the program yields an infinity, which a
  real-valued \<open>rnd\<close> replaces by the largest finite value. In the functions
  below only the product \<^verbatim>\<open>-DecayRate * timeDifference\<close> can leave the finite range
  for finite arguments, and \<^verbatim>\<open>math.Exp\<close> is 0 at both.

  \<^verbatim>\<open>math.Exp\<close> belongs to the Go library and is a parameter \<open>Exp\<close>;
  \<open>expLike F Exp\<close> states what is used of it: \<^verbatim>\<open>Exp(0) = 1\<close>, and for an argument
  \<open>\<le> 0\<close> the result is a representable value between 0 and 1.
\<close>

definition rounding :: "real set \<Rightarrow> (real \<Rightarrow> real) \<Rightarrow> bool" where
  "rounding F rnd =
     ((\<forall>x. rnd x \<in> F) \<and> (\<forall>x\<in>F. rnd x = x) \<and> (\<forall>x y. x \<le> y \<longrightarrow> rnd x \<le> rnd y))"

definition expLike :: "real set \<Rightarrow> (real \<Rightarrow> real) \<Rightarrow> bool" where
  "expLike F Exp = (Exp 0 = 1 \<and> (\<forall>x. x \<le> 0 \<longrightarrow> Exp x \<in> F \<and> 0 \<le> Exp x \<and> Exp x \<le> 1))"

text \<open>
  \<^verbatim>\<open>Duration.Hours\<close> as the library computes it: the whole hours and the remaining
  nanoseconds (Go's truncating \<^verbatim>\<open>/\<close> and \<^verbatim>\<open>%\<close>) are converted and added.
\<close>

definition Hour :: Duration where
  "Hour = 3600000000000"

definition Hours64 :: "(real \<Rightarrow> real) \<Rightarrow> Duration \<Rightarrow> real" where
  "Hours64 rnd d =
     (let hour = d sdiv Hour;
          nsec = d smod Hour
      in rnd (rnd (of_int hour) + rnd (rnd (of_int nsec) / rnd 3600000000000)))"

text \<open>
  \<^verbatim>\<open>CalculateDecayFactor\<close> and \<^verbatim>\<open>calculateCostWeightedScore\<close>, operation by operation.
\<close>

definition timeDifference64 :: "(real \<Rightarrow> real) \<Rightarrow> EmissionDataPoint \<Rightarrow> DecayParameters \<Rightarrow> real" where
  "timeDifference64 rnd e params = Hours64 rnd (Sub (LatestTime params) (Time e))"

definition CalculateDecayFactor64 ::
  "(real \<Rightarrow> real) \<Rightarrow> (real \<Rightarrow> real) \<Rightarrow> EmissionDataPoint \<Rightarrow> DecayParameters \<Rightarrow> real" where
  "CalculateDecayFactor64 rnd Exp e params =
     (let timeDifference = timeDifference64 rnd e params
      in if timeDifference \<ge> 0
         then rnd (Exp (rnd (- DecayParameters.DecayRate params * timeDifference))
                   / rnd (1 + Exp (rnd (- DecayParameters.DecayRate params * timeDifference))))
         else 1)"

definition calculateCostWeightedScore64 ::
  "(real \<Rightarrow> real) \<Rightarrow> SustainabilityProfile \<Rightarrow> real \<Rightarrow> real" where
  "calculateCostWeightedScore64 rnd data costWeight = rnd (costWeight / rnd (1 + TotalCost data))"

subsection \<open>Telemetry responses and the score orchestrator\<close>

text \<open>
  \<^verbatim>\<open>UsageEntity\<close>: the nullable numeric fields are pointers in the source, options
  here. The descriptive string fields of the entity and the pagination counters of
  the response are not read by the scoring path and are left out.
\<close>

record UsageEntity =
  ID :: string
  CostUsd :: "real option"
  Co2eMetricTon :: "real option"
  Kwh :: "real option"

definition GetCostUsd :: "UsageEntity \<Rightarrow> real" where
  "GetCostUsd e = (case CostUsd e of None \<Rightarrow> 0 | Some v \<Rightarrow> v)"

definition GetCo2eMetricTon :: "UsageEntity \<Rightarrow> real" where
  "GetCo2eMetricTon e = (case Co2eMetricTon e of None \<Rightarrow> 0 | Some v \<Rightarrow> v)"

definition GetKwh :: "UsageEntity \<Rightarrow> real" where
  "GetKwh e = (case Kwh e of None \<Rightarrow> 0 | Some v \<Rightarrow> v)"

record UsageByEntityResponse =
  Items :: "UsageEntity list"

record TimeSeriesConfig =
  DaysToConsider :: real
  SeriesInterval :: string

text \<open>
  The plugin's own \<^verbatim>\<open>SustainabilityWeights\<close> struct has the same four fields as the
  one of the scoring model; one record serves for both.
\<close>

record Config =
  TimeSeriesConfig :: TimeSeriesConfig
  SustainabilityWeights :: SustainabilityWeights
  SerialNumLabel :: string

text \<open>The plugin value; its two clients are not read by the functions modelled here.\<close>

record GreenScheduling =
  config :: Config

definition calculateSustainabilityScore ::
  "GreenScheduling \<Rightarrow> UsageByEntityResponse \<Rightarrow> EmissionDataPoint list \<Rightarrow> real" where
  "calculateSustainabilityScore gks usageByEntity dataPoints =
     (if length (Items usageByEntity) = 0 then 0
      else
        (let sData = NewSustainabilityProfile dataPoints
                       (GetCo2eMetricTon (Items usageByEntity ! 0))
                       (GetCostUsd (Items usageByEntity ! 0))
         in CalculateScore sData
              (NewSustainabilityWeights
                 (CO2DecayWeight (SustainabilityWeights (config gks)))
                 (TotalCO2Weight (SustainabilityWeights (config gks)))
                 (CostWeight (SustainabilityWeights (config gks)))
                 (SustainabilityWeights.DecayRate (SustainabilityWeights (config gks))))))"

subsection \<open>Score normaliser\<close>

type_synonym int64 = "64 word"

text \<open>Run-time panics of the Go runtime that the modelled code can raise.\<close>

datatype panic = IntegerDivideByZero | InterfaceConversion

text \<open>
  \<^verbatim>\<open>framework.NodeScore\<close> of the host scheduler: a node name and its score. The name
  field is called \<open>NodeName\<close> here (\<open>Name\<close> is a filter key below).
\<close>

record NodeScore =
  NodeName :: string
  Score :: int64

text \<open>
  Modelled from the spec: \<^verbatim>\<open>framework.MaxNodeScore\<close>, the host orchestrator's fixed
  score ceiling, is declared outside this repository; the spec's normaliser example
  fixes it to 100.
\<close>

definition MaxNodeScore :: int64 where
  "MaxNodeScore = 100"

text \<open>
  Go's \<^verbatim>\<open>/\<close> on \<^verbatim>\<open>int64\<close>: a panic on a zero divisor, otherwise the quotient
  truncated towards zero.
\<close>

definition int64_div :: "int64 \<Rightarrow> int64 \<Rightarrow> panic + int64" where
  "int64_div a b =
     (if b = 0 then Inl IntegerDivideByZero else Inr (word_of_int (sint a sdiv sint b)))"

text \<open>First loop of \<^verbatim>\<open>NormalizeScore\<close>: \<^verbatim>\<open>higherScore\<close> starts at 0.\<close>

definition higherScoreLoop :: "NodeScore list \<Rightarrow> int64 \<Rightarrow> int64" where
  "higherScoreLoop scores start =
     fold (\<lambda>node higherScore.
             if higherScore <s Score node then Score node else higherScore)
          scores start"

text \<open>
  Second loop: every element is overwritten by its rescaled score; the wrapping
  product is divided by \<^verbatim>\<open>higherScore\<close>, and a panic ends the loop.
\<close>

fun rescaleLoop :: "int64 \<Rightarrow> NodeScore list \<Rightarrow> panic + NodeScore list" where
  "rescaleLoop higherScore [] = Inr []"
| "rescaleLoop higherScore (node # rest) =
     (case int64_div (Score node * MaxNodeScore) higherScore of
        Inl p \<Rightarrow> Inl p
      | Inr q \<Rightarrow>
          (case rescaleLoop higherScore rest of
             Inl p \<Rightarrow> Inl p
           | Inr rest' \<Rightarrow> Inr (node\<lparr>Score := q\<rparr> # rest')))"

definition NormalizeScore :: "NodeScore list \<Rightarrow> panic + NodeScore list" where
  "NormalizeScore scores = rescaleLoop (higherScoreLoop scores 0) scores"

subsection \<open>Query parameter builder (package sicparams)\<close>

type_synonym FilterKey = string

definition EntityID :: FilterKey where "EntityID = ''entityId''"
definition EntityMake :: FilterKey where "EntityMake = ''entityMake''"
definition EntityModel :: FilterKey where "EntityModel = ''entityModel''"
definition EntityType :: FilterKey where "EntityType = ''entityType''"
definition EntitySerialNum :: FilterKey where "EntitySerialNum = ''entitySerialNum''"
definition EntityProductID :: FilterKey where "EntityProductID = ''entityProductId''"
definition LocationName :: FilterKey where "LocationName = ''locationName''"
definition LocationID :: FilterKey where "LocationID = ''locationId''"
definition LocationCity :: FilterKey where "LocationCity = ''locationCity''"
definition LocationState :: FilterKey where "LocationState = ''locationState''"
definition LocationCountry :: FilterKey where "LocationCountry = ''locationCountry''"
definition Name :: FilterKey where "Name = ''name''"

type_synonym FilterOperator = string

definition Equals :: FilterOperator where "Equals = ''eq''"
definition Contains :: FilterOperator where "Contains = ''contains''"
definition In :: FilterOperator where "In = ''in''"

text \<open>
  The dynamic value of the \<^verbatim>\<open>interface{}\<close> field of a filter. A string slice is a
  reference to its backing array in the store; \<open>OtherValue r\<close> stands for a value of
  any other dynamic type, \<open>r\<close> being its rendering under the \<^verbatim>\<open>%v\<close> verb.
\<close>

type_synonym addr = nat
type_synonym store = "addr \<Rightarrow> string list"

datatype iface = StringValue string | StringSlice addr | OtherValue string

definition emptyStore :: store where
  "emptyStore = (\<lambda>a. [])"

record Filter =
  Key :: FilterKey
  Operator :: FilterOperator
  Value :: iface

datatype error = Errorf string | NewRequestError | TransportError | DecodeError

definition isValidKey :: "FilterKey \<Rightarrow> bool" where
  "isValidKey key =
     (key \<in> set [EntityID, EntityMake, EntityModel, EntityType, EntitySerialNum,
                  EntityProductID, LocationName, LocationID,
                  LocationCity, LocationState, LocationCountry, Name])"

definition isValidOperator :: "FilterOperator \<Rightarrow> bool" where
  "isValidOperator operator = (operator \<in> set [Equals, Contains, In])"

definition NewFilter :: "FilterKey \<Rightarrow> FilterOperator \<Rightarrow> iface \<Rightarrow> error + Filter" where
  "NewFilter key operator val =
     (if \<not> isValidKey key then Inl (Errorf (''invalid filter key: '' @ key))
      else if \<not> isValidOperator operator
        then Inl (Errorf (''invalid filter operator: '' @ operator))
      else Inr \<lparr>Key = key, Operator = operator, Value = val\<rparr>)"

text \<open>\<^verbatim>\<open>strings.Join\<close>.\<close>

fun Join :: "string list \<Rightarrow> string \<Rightarrow> string" where
  "Join [] sep = []"
| "Join [x] sep = x"
| "Join (x # y # ys) sep = x @ sep @ Join (y # ys) sep"

text \<open>The single quote character, and the loop body of \<^verbatim>\<open>formatInValues\<close>.\<close>

definition quote :: string where
  "quote = [CHR 0x27]"

definition quoted :: "string \<Rightarrow> string" where
  "quoted v = quote @ v @ quote"

text \<open>
  \<^verbatim>\<open>formatInValues\<close> overwrites every element of the backing array of its argument
  and joins the new elements.
\<close>

definition formatInValues :: "store \<Rightarrow> addr \<Rightarrow> string \<times> store" where
  "formatInValues s values =
     (let s' = s(values := map quoted (s values))
      in (Join (s' values) '', '', s'))"

text \<open>Rendering under \<^verbatim>\<open>%v\<close>; a string slice prints as its elements in brackets.\<close>

definition fmt_v :: "store \<Rightarrow> iface \<Rightarrow> string" where
  "fmt_v s val =
     (case val of
        StringValue str \<Rightarrow> str
      | StringSlice a \<Rightarrow> ''['' @ Join (s a) '' '' @ '']''
      | OtherValue r \<Rightarrow> r)"

text \<open>
  \<^verbatim>\<open>Filter.GetValue\<close>. The unchecked type assertion \<^verbatim>\<open>f.Value.([]string)\<close> panics
  on any other dynamic type.
\<close>

definition GetValue :: "store \<Rightarrow> Filter \<Rightarrow> panic + string \<times> store" where
  "GetValue s f =
     (if Operator f = In then
        (case Value f of
           StringSlice values \<Rightarrow>
             (let (str, s') = formatInValues s values
              in Inr (Key f @ '' in ('' @ str @ '')'', s'))
         | _ \<Rightarrow> Inl InterfaceConversion)
      else if Operator f = Contains then
        Inr (''contains('' @ Key f @ '', '' @ quote @ fmt_v s (Value f) @ quote @ '')'', s)
      else
        Inr (Key f @ '' '' @ Operator f @ '' '' @ quote @ fmt_v s (Value f) @ quote, s))"

type_synonym SortKey = string
type_synonym SortOrder = string

definition Ascending :: SortOrder where "Ascending = ''asc''"
definition Descending :: SortOrder where "Descending = ''desc''"

record Sort =
  SortKey :: SortKey
  Order :: SortOrder

definition SortGetValue :: "Sort \<Rightarrow> string" where
  "SortGetValue srt = SortKey srt @ '' '' @ Order srt"

text \<open>Decimal rendering of an integer (\<^verbatim>\<open>%d\<close>).\<close>

function showNat :: "nat \<Rightarrow> string" where
  "showNat n =
     (if n < 10 then [char_of (48 + n)]
      else showNat (n div 10) @ [char_of (48 + n mod 10)])"
  by pat_completeness auto
termination
  by (relation "measure (\<lambda>n. n)") auto

definition showInt :: "int \<Rightarrow> string" where
  "showInt i = (if i < 0 then ''-'' @ showNat (nat (- i)) else showNat (nat i))"

datatype Offset = Offset int
datatype Limit = Limit int

fun OffsetGetValue :: "Offset \<Rightarrow> string" where
  "OffsetGetValue (Offset v) = showInt v"

fun LimitGetValue :: "Limit \<Rightarrow> string" where
  "LimitGetValue (Limit v) = showInt v"

record Params =
  filters :: "Filter list"
  sorts :: "Sort list"
  offset :: "Offset option"
  limit :: "Limit option"

definition NewParams :: Params where
  "NewParams = \<lparr>filters = [], sorts = [], offset = None, limit = None\<rparr>"

definition AddFilter :: "Params \<Rightarrow> Filter \<Rightarrow> Params" where
  "AddFilter p f = p\<lparr>filters := filters p @ [f]\<rparr>"

definition AddSort :: "Params \<Rightarrow> Sort \<Rightarrow> Params" where
  "AddSort p srt = p\<lparr>sorts := sorts p @ [srt]\<rparr>"

definition AddOffset :: "Params \<Rightarrow> Offset \<Rightarrow> Params" where
  "AddOffset p off = p\<lparr>offset := Some off\<rparr>"

definition AddLimit :: "Params \<Rightarrow> Limit \<Rightarrow> Params" where
  "AddLimit p l = p\<lparr>limit := Some l\<rparr>"

text \<open>\<^verbatim>\<open>url.Values\<close> is a map from a key to the list of its values; \<^verbatim>\<open>Add\<close> appends.\<close>

type_synonym Values = "string \<rightharpoonup> string list"

definition Add :: "Values \<Rightarrow> string \<Rightarrow> string \<Rightarrow> Values" where
  "Add v key val = v(key \<mapsto> (case v key of None \<Rightarrow> [] | Some vs \<Rightarrow> vs) @ [val])"

text \<open>
  The filter loop of \<^verbatim>\<open>ToQueryParams\<close>. The loop variable is a copy of the filter,
  but the copy of a slice value refers to the same backing array, so the store is
  threaded through the calls of \<^verbatim>\<open>GetValue\<close>.
\<close>

fun filtersLoop :: "store \<Rightarrow> Values \<Rightarrow> Filter list \<Rightarrow> panic + Values \<times> store" where
  "filtersLoop s queryParams [] = Inr (queryParams, s)"
| "filtersLoop s queryParams (f # rest) =
     (case GetValue s f of
        Inl p \<Rightarrow> Inl p
      | Inr (str, s') \<Rightarrow> filtersLoop s' (Add queryParams ''filter'' str) rest)"

definition sortsLoop :: "Values \<Rightarrow> Sort list \<Rightarrow> Values" where
  "sortsLoop queryParams srts =
     fold (\<lambda>srt q. Add q ''sort'' (SortGetValue srt)) srts queryParams"

definition ToQueryParams :: "store \<Rightarrow> Params \<Rightarrow> panic + Values \<times> store" where
  "ToQueryParams s p =
     (case filtersLoop s Map.empty (filters p) of
        Inl pn \<Rightarrow> Inl pn
      | Inr (q1, s') \<Rightarrow>
          (let q2 = sortsLoop q1 (sorts p);
               q3 = (case offset p of None \<Rightarrow> q2
                     | Some off \<Rightarrow> Add q2 ''offset'' (OffsetGetValue off));
               q4 = (case limit p of None \<Rightarrow> q3
                     | Some l \<Rightarrow> Add q3 ''limit'' (LimitGetValue l))
           in Inr (q4, s')))"

subsection \<open>Auxiliary notions for the proofs about repeated serialisation\<close>

text \<open>
  \<open>grows s t\<close>: store \<open>t\<close> holds the same slices as \<open>s\<close>, element for element at
  least as long. \<open>filterValues\<close> collects the strings that the filter loop of
  \<^verbatim>\<open>ToQueryParams\<close> adds under the key \<^verbatim>\<open>filter\<close>; \<open>valuesOf\<close> reads the values
  stored under a key, none if the key is absent.
\<close>

definition grows :: "store \<Rightarrow> store \<Rightarrow> bool" where
  "grows s t = (\<forall>a. list_all2 (\<lambda>x y. length x \<le> length y) (s a) (t a))"

fun filterValues :: "store \<Rightarrow> Filter list \<Rightarrow> panic + string list \<times> store" where
  "filterValues s [] = Inr ([], s)"
| "filterValues s (f # rest) =
     (case GetValue s f of
        Inl p \<Rightarrow> Inl p
      | Inr (str, s') \<Rightarrow>
          (case filterValues s' rest of
             Inl p \<Rightarrow> Inl p
           | Inr (strs, s'') \<Rightarrow> Inr (str # strs, s'')))"

definition valuesOf :: "Values \<Rightarrow> string \<Rightarrow> string list" where
  "valuesOf q key = (case q key of None \<Rightarrow> [] | Some vs \<Rightarrow> vs)"

subsection \<open>Token manager (package sicclient)\<close>

record TokenResponse =
  AccessToken :: string
  TokenType :: string
  ExpiresIn :: int64

record TokenConfig =
  URL :: string
  ClientID :: string
  ClientSecret :: string

record TokenInfo =
  Token :: string
  Expiry :: Time

text \<open>
  The zero \<^verbatim>\<open>time.Time\<close> is the origin of the nanosecond count; every reading of
  the wall clock lies after it.
\<close>

definition zeroTime :: Time where
  "zeroTime = 0"

text \<open>The manager's HTTP client stands for the network, which is an input below.\<close>

record TokenManager =
  config :: TokenConfig
  tokenInfo :: TokenInfo

definition NewTokenManager :: "TokenConfig \<Rightarrow> TokenManager" where
  "NewTokenManager cfg =
     \<lparr>TokenManager.config = cfg, tokenInfo = \<lparr>Token = [], Expiry = zeroTime\<rparr>\<rparr>"

definition grantType :: string where
  "grantType = ''client_credentials''"

definition contentTypeHeader :: string where
  "contentTypeHeader = ''application/x-www-form-urlencoded''"

text \<open>A request handed to the network: method, URL, content type and form fields.\<close>

record Request =
  Method :: string
  RequestURL :: string
  ContentType :: string
  Form :: "(string \<times> string) list"

text \<open>
  What the environment makes of one token exchange: \<^verbatim>\<open>http.NewRequest\<close> rejects
  the URL, the transport fails, or a response arrives with its status code, its
  status line and the outcome of decoding its body (\<open>None\<close>: the decoder failed).
\<close>

datatype Exchange =
  NewRequestFails
| DoFails
| Response nat string "TokenResponse option"

definition StatusOK :: nat where
  "StatusOK = 200"

definition Second :: int64 where
  "Second = 1000000000"

text \<open>
  \<^verbatim>\<open>GenerateToken\<close>, given the course of the exchange and the clock reading taken
  when the expiry is computed. It returns the error (if any), the manager and the
  requests that were sent.
\<close>

definition GenerateToken ::
  "Exchange \<Rightarrow> Time \<Rightarrow> TokenManager \<Rightarrow> error option \<times> TokenManager \<times> Request list" where
  "GenerateToken ex now tm =
     (let req = \<lparr>Method = ''POST'', RequestURL = URL (TokenManager.config tm),
                 ContentType = contentTypeHeader,
                 Form = [(''client_id'', ClientID (TokenManager.config tm)),
                         (''client_secret'', ClientSecret (TokenManager.config tm)),
                         (''grant_type'', grantType)]\<rparr>
      in case ex of
           NewRequestFails \<Rightarrow> (Some NewRequestError, tm, [])
         | DoFails \<Rightarrow> (Some TransportError, tm, [req])
         | Response statusCode status body \<Rightarrow>
             if statusCode \<noteq> StatusOK
             then (Some (Errorf (''failed to generate token: '' @ status)), tm, [req])
             else (case body of
                     None \<Rightarrow> (Some DecodeError, tm, [req])
                   | Some tokenResp \<Rightarrow>
                       (None,
                        tm\<lparr>tokenInfo :=
                             \<lparr>Token = AccessToken tokenResp,
                              Expiry = now + sint (ExpiresIn tokenResp * Second)\<rparr>\<rparr>,
                        [req])))"

definition RefreshToken ::
  "Exchange \<Rightarrow> Time \<Rightarrow> TokenManager \<Rightarrow> error option \<times> TokenManager \<times> Request list" where
  "RefreshToken ex now tm = GenerateToken ex now tm"

text \<open>
  \<^verbatim>\<open>GetToken\<close>, given the clock reading of its expiry check and, for the case that
  it refreshes, the exchange and the later clock reading.
\<close>

definition GetToken ::
  "Time \<Rightarrow> Exchange \<Rightarrow> Time \<Rightarrow> TokenManager \<Rightarrow> (error + string) \<times> TokenManager \<times> Request list" where
  "GetToken now ex now' tm =
     (if After now (Expiry (tokenInfo tm)) then
        (case RefreshToken ex now' tm of
           (Some err, tm', reqs) \<Rightarrow> (Inl err, tm', reqs)
         | (None, tm', reqs) \<Rightarrow> (Inr (Token (tokenInfo tm')), tm', reqs))
      else (Inr (Token (tokenInfo tm)), tm, []))"

section \<open>Properties of the scoring model\<close>

lemma latestTimeLoop_Max:
  "latestTimeLoop es seed = Max (insert seed (Time ` set es))"
proof (induction es arbitrary: seed)
  case Nil
  then show ?case by (simp add: latestTimeLoop_def)
next
  case (Cons e es)
  have step: "latestTimeLoop (e # es) seed = latestTimeLoop es (max seed (Time e))"
    by (simp add: latestTimeLoop_def After_def max_def)
  have "Max (insert (max seed (Time e)) (Time ` set es))
        = Max (insert seed (insert (Time e) (Time ` set es)))"
    by (cases "Time ` set es = {}") (simp_all add: max.assoc)
  with Cons.IH [of "max seed (Time e)"] step show ?case by simp
qed

lemma weightedCO2Loop_sum:
  "weightedCO2Loop es t r acc
   = acc + (\<Sum>e\<leftarrow>es. CalculateDecayFactor e (NewDecayParameters t r) * Co2 e)"
  unfolding weightedCO2Loop_def
  by (induction es arbitrary: acc) simp_all

text \<open>
  C2. \<^verbatim>\<open>CalculateScore\<close> is the weighted decayed sum plus the weighted total CO2
  plus the cost term \<open>costWeight / (1 + totalCost)\<close>, where the decayed sum adds
  \<open>decayFactor\<^sub>i * co2\<^sub>i\<close> over all emission points and each decay factor is taken
  against the latest timestamp of the profile. With an empty emissions sequence
  the decay-weighted term is 0 whatever the weight and the rate. (At a total cost
  of \<open>-1\<close> the cost term divides by zero: infinite or NaN in \<^verbatim>\<open>float64\<close>, 0 in
  \<^typ>\<open>real\<close>; the identity is between the same quotient on both sides.)
\<close>

theorem CalculateScore_formula:
  "CalculateScore data weights
   = CO2DecayWeight weights
       * (\<Sum>e\<leftarrow>Emissions data.
            CalculateDecayFactor e
              (NewDecayParameters (Max (Time ` set (Emissions data))) (SustainabilityWeights.DecayRate weights))
            * Co2 e)
     + TotalCO2Weight weights * TotalCo2 data
     + CostWeight weights / (1 + TotalCost data)
   \<and> calculateCO2WeightedScore (data\<lparr>Emissions := []\<rparr>) co2Weight decayRate = 0"
proof -
  have co2: "calculateCO2WeightedScore data w r
             = w * (\<Sum>e\<leftarrow>Emissions data.
                      CalculateDecayFactor e
                        (NewDecayParameters (Max (Time ` set (Emissions data))) r) * Co2 e)"
    for w r
  proof (cases "Emissions data")
    case Nil
    then show ?thesis by (simp add: calculateCO2WeightedScore_def)
  next
    case (Cons first rest)
    have "insert (Time first) (Time ` set (Emissions data)) = Time ` set (Emissions data)"
      using Cons by auto
    then have "latestTimeLoop (Emissions data) (Time first) = Max (Time ` set (Emissions data))"
      by (simp add: latestTimeLoop_Max)
    then show ?thesis
      using Cons by (simp add: calculateCO2WeightedScore_def weightedCO2Loop_sum)
  qed
  have empty: "calculateCO2WeightedScore (data\<lparr>Emissions := []\<rparr>) co2Weight decayRate = 0"
    by (simp add: calculateCO2WeightedScore_def)
  show ?thesis
    using empty
    by (simp add: CalculateScore_def co2 calculateTotalCO2WeightedScore_def
        calculateCostWeightedScore_def)
qed

lemma roundingD:
  assumes "rounding F rnd"
  shows "rnd x \<in> F" and "x \<in> F \<Longrightarrow> rnd x = x" and "x \<le> y \<Longrightarrow> rnd x \<le> rnd y"
  using assms by (auto simp: rounding_def)

text \<open>
  With exact arithmetic in place of the rounding, the functions with explicit
  rounding are the exact ones.
\<close>

lemma Hours64_exact: "Hours64 (\<lambda>x. x) d = Hours d"
proof -
  have "d sdiv Hour * Hour + d smod Hour = d" by (rule sdiv_mult_smod_eq)
  then have "real_of_int d = real_of_int (d sdiv Hour) * 3600000000000 + real_of_int (d smod Hour)"
    by (metis Hour_def of_int_add of_int_mult of_int_numeral)
  then show ?thesis by (simp add: Hours64_def Hours_def Let_def field_simps)
qed

lemma CalculateDecayFactor64_exact:
  "CalculateDecayFactor64 (\<lambda>x. x) exp e params = CalculateDecayFactor e params"
  by (simp add: CalculateDecayFactor64_def CalculateDecayFactor_def timeDifference64_def
      timeDifference_def Hours64_exact Let_def)

lemma calculateCostWeightedScore64_exact:
  "calculateCostWeightedScore64 (\<lambda>x. x) data w = calculateCostWeightedScore data w"
  by (simp add: calculateCostWeightedScore64_def calculateCostWeightedScore_def)

lemma logistic64_half:
  assumes r: "rounding F rnd" and F: "2 \<in> F" "1 / 2 \<in> F" and e: "expLike F Exp"
  shows "rnd (Exp 0 / rnd (1 + Exp 0)) = 1 / 2"
proof -
  have "Exp 0 = 1" using e by (simp add: expLike_def)
  moreover have "rnd 2 = 2" using roundingD(2) [OF r F(1)] .
  moreover have "rnd (1 / 2) = 1 / 2" using roundingD(2) [OF r F(2)] .
  ultimately show ?thesis by simp
qed

lemma logistic64_range:
  assumes r: "rounding F rnd" and F: "0 \<in> F" "1 \<in> F" "1 / 2 \<in> F"
    and dbl: "\<forall>y\<in>F. 0 \<le> y \<and> y \<le> 1 \<longrightarrow> 2 * y \<in> F"
    and e: "expLike F Exp" and x: "x \<le> 0"
  shows "0 \<le> rnd (Exp x / rnd (1 + Exp x))" and "rnd (Exp x / rnd (1 + Exp x)) \<le> 1 / 2"
proof -
  from e x have ex: "Exp x \<in> F" "0 \<le> Exp x" "Exp x \<le> 1" by (simp_all add: expLike_def)
  have r0: "rnd 0 = 0" and r1: "rnd 1 = 1" and rh: "rnd (1 / 2) = 1 / 2"
    using roundingD(2) [OF r] F by simp_all
  have "2 * Exp x \<in> F" using dbl ex by blast
  then have "rnd (2 * Exp x) = 2 * Exp x" by (rule roundingD(2) [OF r])
  moreover have "rnd (2 * Exp x) \<le> rnd (1 + Exp x)"
    using ex(3) by (intro roundingD(3) [OF r]) simp
  ultimately have d2: "2 * Exp x \<le> rnd (1 + Exp x)" by simp
  have "rnd 1 \<le> rnd (1 + Exp x)" using ex(2) by (intro roundingD(3) [OF r]) simp
  then have d1: "1 \<le> rnd (1 + Exp x)" by (simp add: r1)
  then have dpos: "0 < rnd (1 + Exp x)" by simp
  have "0 \<le> Exp x / rnd (1 + Exp x)" using ex(2) dpos by simp
  then have "rnd 0 \<le> rnd (Exp x / rnd (1 + Exp x))" by (rule roundingD(3) [OF r])
  then show "0 \<le> rnd (Exp x / rnd (1 + Exp x))" by (simp add: r0)
  have "Exp x / rnd (1 + Exp x) \<le> 1 / 2" using d2 dpos by (simp add: field_simps)
  then have "rnd (Exp x / rnd (1 + Exp x)) \<le> rnd (1 / 2)" by (rule roundingD(3) [OF r])
  then show "rnd (Exp x / rnd (1 + Exp x)) \<le> 1 / 2" by (simp add: rh)
qed

text \<open>
  An arithmetic that meets the hypotheses and does round: the multiples of \<open>1/2\<close>,
  with rounding to the nearest of them.
\<close>

lemma halfGrid_rounding:
  "rounding {x. 2 * x \<in> \<int>} (\<lambda>x. of_int (round (2 * x)) / 2)"
  unfolding rounding_def
proof (intro conjI allI ballI impI)
  fix x :: real
  show "(of_int (round (2 * x)) / 2 :: real) \<in> {x. 2 * x \<in> \<int>}" by simp
next
  fix x :: real
  assume "x \<in> {x. 2 * x \<in> \<int>}"
  then obtain k :: int where k: "2 * x = of_int k" by (auto elim: Ints_cases)
  then have "round (2 * x) = k" by simp
  with k show "of_int (round (2 * x)) / 2 = x" by simp
next
  fix x y :: real
  assume "x \<le> y"
  then have "round (2 * x) \<le> round (2 * y)" by (intro round_mono) simp
  then show "of_int (round (2 * x)) / 2 \<le> (of_int (round (2 * y)) / 2 :: real)" by simp
qed

lemma halfGrid_expLike:
  "expLike {x. 2 * x \<in> \<int>} (\<lambda>x. of_int (round (2 * exp x)) / 2)"
  unfolding expLike_def
proof (intro conjI allI impI)
  show "of_int (round (2 * exp (0::real))) / 2 = (1::real)" by simp
next
  fix x :: real
  show "(of_int (round (2 * exp x)) / 2 :: real) \<in> {x. 2 * x \<in> \<int>}" by simp
next
  fix x :: real
  have "round (0::real) \<le> round (2 * exp x)" by (intro round_mono) simp
  then show "0 \<le> (of_int (round (2 * exp x)) / 2 :: real)" by simp
next
  fix x :: real
  assume "x \<le> 0"
  then have "2 * exp x \<le> 2" by simp
  then have "round (2 * exp x) \<le> round (2::real)" by (rule round_mono)
  then show "of_int (round (2 * exp x)) / 2 \<le> (1::real)" by simp
qed

text \<open>
  C3 (amended). In float64 arithmetic, for a decay rate \<open>r \<ge> 0\<close> and a time
  difference \<open>\<Delta>h \<ge> 0\<close> the decay factor lies in \<open>[0, 1/2]\<close>; it is exactly \<open>1/2\<close>
  at \<open>\<Delta>h = 0\<close>, and at \<open>r = 0\<close> for every \<open>\<Delta>h \<ge> 0\<close>; with \<open>\<Delta>h < 0\<close> it is
  exactly 1. Nothing is stated about monotonicity in \<open>\<Delta>h\<close>.
\<close>

theorem CalculateDecayFactor64_properties:
  assumes "rounding F rnd" and "{0, 1, 2, 1 / 2} \<subseteq> F"
    and "\<forall>y\<in>F. 0 \<le> y \<and> y \<le> 1 \<longrightarrow> 2 * y \<in> F"
    and "expLike F Exp"
  shows "(0 \<le> DecayParameters.DecayRate p \<and> 0 \<le> timeDifference64 rnd e p \<longrightarrow>
            0 \<le> CalculateDecayFactor64 rnd Exp e p \<and> CalculateDecayFactor64 rnd Exp e p \<le> 1 / 2)
       \<and> (timeDifference64 rnd e p = 0 \<longrightarrow> CalculateDecayFactor64 rnd Exp e p = 1 / 2)
       \<and> (DecayParameters.DecayRate p = 0 \<and> 0 \<le> timeDifference64 rnd e p \<longrightarrow>
            CalculateDecayFactor64 rnd Exp e p = 1 / 2)
       \<and> (timeDifference64 rnd e p < 0 \<longrightarrow> CalculateDecayFactor64 rnd Exp e p = 1)"
proof (intro conjI impI)
  have r0: "rnd 0 = 0" using roundingD(2) [OF assms(1), of 0] assms(2) by simp
  {
    assume h: "0 \<le> DecayParameters.DecayRate p \<and> 0 \<le> timeDifference64 rnd e p"
    then have "- DecayParameters.DecayRate p * timeDifference64 rnd e p \<le> 0"
      by (simp add: mult_nonneg_nonneg)
    then have "rnd (- DecayParameters.DecayRate p * timeDifference64 rnd e p) \<le> rnd 0"
      by (rule roundingD(3) [OF assms(1)])
    then have x: "rnd (- DecayParameters.DecayRate p * timeDifference64 rnd e p) \<le> 0"
      by (simp add: r0)
    from logistic64_range [OF assms(1) _ _ _ assms(3,4) x] assms(2) h
    show "0 \<le> CalculateDecayFactor64 rnd Exp e p"
      and "CalculateDecayFactor64 rnd Exp e p \<le> 1 / 2"
      by (simp_all add: CalculateDecayFactor64_def Let_def)
  }
  {
    assume "timeDifference64 rnd e p = 0"
    with logistic64_half [OF assms(1) _ _ assms(4)] assms(2) r0
    show "CalculateDecayFactor64 rnd Exp e p = 1 / 2"
      by (simp add: CalculateDecayFactor64_def Let_def)
  }
  {
    assume "DecayParameters.DecayRate p = 0 \<and> 0 \<le> timeDifference64 rnd e p"
    with logistic64_half [OF assms(1) _ _ assms(4)] assms(2) r0
    show "CalculateDecayFactor64 rnd Exp e p = 1 / 2"
      by (simp add: CalculateDecayFactor64_def Let_def)
  }
  {
    assume "timeDifference64 rnd e p < 0"
    then show "CalculateDecayFactor64 rnd Exp e p = 1"
      by (simp add: CalculateDecayFactor64_def Let_def)
  }
qed

theorem CalculateDecayFactor64_properties_witness:
  "CalculateDecayFactor64 (\<lambda>x. of_int (round (2 * x)) / 2) (\<lambda>x. of_int (round (2 * exp x)) / 2)
     \<lparr>Co2 = 1, Time = 7200000000000\<rparr> (NewDecayParameters 7200000000000 (1 / 10)) = 1 / 2
   \<and> 0 \<le> CalculateDecayFactor64 (\<lambda>x. of_int (round (2 * x)) / 2) (\<lambda>x. of_int (round (2 * exp x)) / 2)
     \<lparr>Co2 = 1, Time = 3600000000000\<rparr> (NewDecayParameters 7200000000000 (1 / 10))
   \<and> CalculateDecayFactor64 (\<lambda>x. of_int (round (2 * x)) / 2) (\<lambda>x. of_int (round (2 * exp x)) / 2)
     \<lparr>Co2 = 1, Time = 3600000000000\<rparr> (NewDecayParameters 7200000000000 (1 / 10)) \<le> 1 / 2
   \<and> CalculateDecayFactor64 (\<lambda>x. of_int (round (2 * x)) / 2) (\<lambda>x. of_int (round (2 * exp x)) / 2)
     \<lparr>Co2 = 1, Time = 3600000000000\<rparr> (NewDecayParameters 7200000000000 0) = 1 / 2
   \<and> CalculateDecayFactor64 (\<lambda>x. of_int (round (2 * x)) / 2) (\<lambda>x. of_int (round (2 * exp x)) / 2)
     \<lparr>Co2 = 1, Time = 9000000000000\<rparr> (NewDecayParameters 7200000000000 (1 / 10)) = 1"
proof -
  let ?F = "{x::real. 2 * x \<in> \<int>}"
  let ?rnd = "\<lambda>x::real. of_int (round (2 * x)) / 2 :: real"
  let ?Exp = "\<lambda>x::real. of_int (round (2 * exp x)) / 2 :: real"
  let ?p = "NewDecayParameters 7200000000000 (1 / 10)"
  let ?q = "NewDecayParameters 7200000000000 0"
  have F: "{0, 1, 2, 1 / 2} \<subseteq> ?F" by simp
  have dbl: "\<forall>y\<in>?F. 0 \<le> y \<and> y \<le> 1 \<longrightarrow> 2 * y \<in> ?F"
  proof (intro ballI impI)
    fix y :: real
    assume "y \<in> ?F"
    then have h: "2 * y \<in> \<int>" by (simp only: mem_Collect_eq)
    from h h have "2 * y + 2 * y \<in> \<int>" by (rule Ints_add)
    moreover have "2 * (2 * y) = 2 * y + 2 * y" by simp
    ultimately have "2 * (2 * y) \<in> \<int>" by (simp only:)
    then show "2 * y \<in> ?F" by (simp only: mem_Collect_eq)
  qed
  note inst = CalculateDecayFactor64_properties [OF halfGrid_rounding F dbl halfGrid_expLike]
  have td0: "timeDifference64 ?rnd \<lparr>Co2 = 1, Time = 7200000000000\<rparr> ?p = 0"
    by (simp add: timeDifference64_def Hours64_def Hour_def NewDecayParameters_def Sub_def
        maxDuration_def minDuration_def signed_divide_int_def signed_modulo_int_def)
  have td1: "timeDifference64 ?rnd \<lparr>Co2 = 1, Time = 3600000000000\<rparr> ?p = 1"
    "timeDifference64 ?rnd \<lparr>Co2 = 1, Time = 3600000000000\<rparr> ?q = 1"
    by (simp_all add: timeDifference64_def Hours64_def Hour_def NewDecayParameters_def Sub_def
        maxDuration_def minDuration_def signed_divide_int_def signed_modulo_int_def)
  have rm: "round (- 1 :: real) = - 1"
    using round_of_int [of "- 1", where ?'a = real] by simp
  have td2: "timeDifference64 ?rnd \<lparr>Co2 = 1, Time = 9000000000000\<rparr> ?p = - (1 / 2)"
    by (simp add: rm timeDifference64_def Hours64_def Hour_def NewDecayParameters_def Sub_def
        maxDuration_def minDuration_def signed_divide_int_def signed_modulo_int_def)
  have r: "0 \<le> DecayParameters.DecayRate ?p" "DecayParameters.DecayRate ?q = 0"
    by (simp_all add: NewDecayParameters_def)
  from inst [of ?p "\<lparr>Co2 = 1, Time = 7200000000000\<rparr>"] td0
  have a: "CalculateDecayFactor64 ?rnd ?Exp \<lparr>Co2 = 1, Time = 7200000000000\<rparr> ?p = 1 / 2"
    by simp
  from inst [of ?p "\<lparr>Co2 = 1, Time = 3600000000000\<rparr>"] td1(1) r(1)
  have b: "0 \<le> CalculateDecayFactor64 ?rnd ?Exp \<lparr>Co2 = 1, Time = 3600000000000\<rparr> ?p"
    "CalculateDecayFactor64 ?rnd ?Exp \<lparr>Co2 = 1, Time = 3600000000000\<rparr> ?p \<le> 1 / 2"
    by simp_all
  from inst [of ?q "\<lparr>Co2 = 1, Time = 3600000000000\<rparr>"] td1(2) r(2)
  have c: "CalculateDecayFactor64 ?rnd ?Exp \<lparr>Co2 = 1, Time = 3600000000000\<rparr> ?q = 1 / 2"
    by simp
  from inst [of ?p "\<lparr>Co2 = 1, Time = 9000000000000\<rparr>"] td2
  have d: "CalculateDecayFactor64 ?rnd ?Exp \<lparr>Co2 = 1, Time = 9000000000000\<rparr> ?p = 1"
    by simp
  from a b c d show ?thesis by blast
qed

text \<open>
  C3 as stated fails at the decay rate 0: the point one hour before the reference
  time has the same factor as the point at the reference time. Every operation on
  these inputs is exact in float64, so the exact definition is what the program
  computes here.
\<close>

theorem CalculateDecayFactor_zero_rate_counterexample:
  "0 \<le> DecayParameters.DecayRate (NewDecayParameters 3600000000000 0)
   \<and> 0 \<le> timeDifference \<lparr>Co2 = 1, Time = 3600000000000\<rparr> (NewDecayParameters 3600000000000 0)
   \<and> timeDifference \<lparr>Co2 = 1, Time = 3600000000000\<rparr> (NewDecayParameters 3600000000000 0)
       < timeDifference \<lparr>Co2 = 1, Time = 0\<rparr> (NewDecayParameters 3600000000000 0)
   \<and> \<not> CalculateDecayFactor \<lparr>Co2 = 1, Time = 0\<rparr> (NewDecayParameters 3600000000000 0)
         < CalculateDecayFactor \<lparr>Co2 = 1, Time = 3600000000000\<rparr> (NewDecayParameters 3600000000000 0)"
  by (simp add: CalculateDecayFactor_def NewDecayParameters_def timeDifference_def Hours_def
      Sub_def maxDuration_def minDuration_def)

text \<open>
  C7 (amended). In float64 arithmetic, for a cost weight \<open>\<ge> 0\<close> and a total cost
  \<open>\<ge> 0\<close> the cost term is at most the cost weight and does not increase with the
  total cost.
\<close>

theorem calculateCostWeightedScore64_properties:
  assumes "rounding F rnd" and "1 \<in> F" and "costWeight \<in> F" and "0 \<le> costWeight"
    and "0 \<le> TotalCost d" and "TotalCost d \<le> TotalCost d'"
  shows "calculateCostWeightedScore64 rnd d costWeight \<le> costWeight
       \<and> calculateCostWeightedScore64 rnd d' costWeight
           \<le> calculateCostWeightedScore64 rnd d costWeight"
proof -
  have r1: "rnd 1 = 1" and rw: "rnd costWeight = costWeight"
    using roundingD(2) [OF assms(1)] assms(2,3) by simp_all
  have "rnd 1 \<le> rnd (1 + TotalCost d)"
    using assms(5) by (intro roundingD(3) [OF assms(1)]) simp
  then have d1: "1 \<le> rnd (1 + TotalCost d)" by (simp add: r1)
  have dd: "rnd (1 + TotalCost d) \<le> rnd (1 + TotalCost d')"
    using assms(6) by (intro roundingD(3) [OF assms(1)]) simp
  have "costWeight / rnd (1 + TotalCost d) \<le> costWeight / 1"
    using assms(4) d1 by (intro divide_left_mono) simp_all
  then have "rnd (costWeight / rnd (1 + TotalCost d)) \<le> rnd costWeight"
    by (intro roundingD(3) [OF assms(1)]) simp
  then have bound: "calculateCostWeightedScore64 rnd d costWeight \<le> costWeight"
    by (simp add: calculateCostWeightedScore64_def rw)
  have "costWeight / rnd (1 + TotalCost d') \<le> costWeight / rnd (1 + TotalCost d)"
    using assms(4) d1 dd by (intro divide_left_mono) simp_all
  then have "rnd (costWeight / rnd (1 + TotalCost d')) \<le> rnd (costWeight / rnd (1 + TotalCost d))"
    by (rule roundingD(3) [OF assms(1)])
  with bound show ?thesis by (simp add: calculateCostWeightedScore64_def)
qed

theorem calculateCostWeightedScore64_properties_witness:
  "calculateCostWeightedScore64 (\<lambda>x. of_int (round (2 * x)) / 2)
     (NewSustainabilityProfile [] 10 0) 1 \<le> 1
   \<and> calculateCostWeightedScore64 (\<lambda>x. of_int (round (2 * x)) / 2)
       (NewSustainabilityProfile [] 10 (1 / 8)) 1
     \<le> calculateCostWeightedScore64 (\<lambda>x. of_int (round (2 * x)) / 2)
         (NewSustainabilityProfile [] 10 0) 1
   \<and> calculateCostWeightedScore64 (\<lambda>x. of_int (round (2 * x)) / 2)
       (NewSustainabilityProfile [] 10 (1 / 8)) 1
     = calculateCostWeightedScore64 (\<lambda>x. of_int (round (2 * x)) / 2)
         (NewSustainabilityProfile [] 10 0) 1"
proof -
  let ?rnd = "\<lambda>x::real. of_int (round (2 * x)) / 2 :: real"
  have one: "(1::real) \<in> {x. 2 * x \<in> \<int>}" by simp
  have costs: "0 \<le> TotalCost (NewSustainabilityProfile [] 10 0)"
    "TotalCost (NewSustainabilityProfile [] 10 0) \<le> TotalCost (NewSustainabilityProfile [] 10 (1 / 8))"
    by (simp_all add: NewSustainabilityProfile_def)
  from calculateCostWeightedScore64_properties [OF halfGrid_rounding one one _ costs]
  have le: "calculateCostWeightedScore64 ?rnd (NewSustainabilityProfile [] 10 0) 1 \<le> 1"
    "calculateCostWeightedScore64 ?rnd (NewSustainabilityProfile [] 10 (1 / 8)) 1
     \<le> calculateCostWeightedScore64 ?rnd (NewSustainabilityProfile [] 10 0) 1"
    by simp_all
  have "round (9 / 4 :: real) = 2" by (simp add: round_def floor_eq_iff)
  then have eq: "calculateCostWeightedScore64 ?rnd (NewSustainabilityProfile [] 10 (1 / 8)) 1
     = calculateCostWeightedScore64 ?rnd (NewSustainabilityProfile [] 10 0) 1"
    by (simp add: calculateCostWeightedScore64_def NewSustainabilityProfile_def)
  from le eq show ?thesis by blast
qed

text \<open>
  C7 as stated fails at the cost weight 0, where the cost term is constantly 0
  (the operations on these inputs are exact in float64).
\<close>

theorem calculateCostWeightedScore_zero_weight_counterexample:
  "0 \<le> TotalCost (NewSustainabilityProfile [] 10 5)
   \<and> TotalCost (NewSustainabilityProfile [] 10 5) < TotalCost (NewSustainabilityProfile [] 10 6)
   \<and> \<not> calculateCostWeightedScore (NewSustainabilityProfile [] 10 6) 0
         < calculateCostWeightedScore (NewSustainabilityProfile [] 10 5) 0"
  by (simp add: calculateCostWeightedScore_def NewSustainabilityProfile_def)

section \<open>Properties of the score normaliser\<close>

lemma higherScoreLoop_Max:
  "sint (higherScoreLoop scores start) = Max (insert (sint start) (sint ` Score ` set scores))"
proof (induction scores arbitrary: start)
  case Nil
  then show ?case by (simp add: higherScoreLoop_def)
next
  case (Cons node rest)
  let ?next = "if start <s Score node then Score node else start"
  have step: "higherScoreLoop (node # rest) start = higherScoreLoop rest ?next"
    by (simp add: higherScoreLoop_def)
  have nxt: "sint ?next = max (sint start) (sint (Score node))"
    by (simp add: word_sless_alt max_def)
  have "Max (insert (max (sint start) (sint (Score node))) (sint ` Score ` set rest))
        = Max (insert (sint start) (insert (sint (Score node)) (sint ` Score ` set rest)))"
    by (cases "sint ` Score ` set rest = {}") (simp_all add: max.assoc)
  with Cons.IH [of ?next] step nxt show ?case by simp
qed

lemma rescaleLoop_nonzero:
  assumes "h \<noteq> 0"
  shows "rescaleLoop h scores
         = Inr (map (\<lambda>node. node\<lparr>Score := word_of_int (sint (Score node * MaxNodeScore) sdiv sint h)\<rparr>) scores)"
  using assms by (induction scores) (simp_all add: int64_div_def)

lemma rescaleLoop_zero:
  "rescaleLoop 0 (node # rest) = Inl IntegerDivideByZero"
  by (simp add: int64_div_def)

lemma sdiv_pos_bounds:
  fixes a b :: int
  assumes "0 < b"
  shows "- \<bar>a\<bar> \<le> a sdiv b" and "a sdiv b \<le> \<bar>a\<bar>" and "(0 \<le> a \<longrightarrow> 0 \<le> a sdiv b)" and "(a < 0 \<longrightarrow> a sdiv b \<le> 0)"
  using sdiv_int_range [of a b] assms
     apply simp_all
   apply (simp_all add: signed_divide_int_def sgn_if pos_imp_zdiv_nonneg_iff)
  done

lemma sint_quotient:
  fixes a h :: int64
  assumes "0 < sint h"
  shows "sint (word_of_int (sint a sdiv sint h) :: int64) = sint a sdiv sint h"
proof -
  have r: "- (2 ^ 63) \<le> sint a" "sint a < 2 ^ 63"
    using sint_ge [of a] sint_lt [of a] by simp_all
  have "- (2 ^ 63) \<le> sint a sdiv sint h \<and> sint a sdiv sint h < 2 ^ 63"
  proof (cases "0 \<le> sint a")
    case True
    then show ?thesis using sdiv_pos_bounds [OF assms, of "sint a"] r by simp
  next
    case False
    then show ?thesis using sdiv_pos_bounds [OF assms, of "sint a"] r by simp
  qed
  then show ?thesis
    by (simp add: sint_sbintrunc' signed_take_bit_int_eq_self)
qed

text \<open>
  C1. The claim asks that a batch in which every score is 0 is normalised without a
  division fault. The code divides by \<^verbatim>\<open>higherScore\<close> unguarded: on every
  non-empty batch of zero scores the first division panics.
\<close>

theorem NormalizeScore_all_zero_panics:
  "NormalizeScore (\<lparr>NodeName = n, Score = 0\<rparr>
                   # map (\<lambda>name. \<lparr>NodeName = name, Score = 0\<rparr>) names)
   = Inl IntegerDivideByZero"
proof -
  have "higherScoreLoop (map (\<lambda>name. \<lparr>NodeName = name, Score = 0\<rparr>) names) 0 = 0"
    by (induction names) (simp_all add: higherScoreLoop_def)
  then show ?thesis
    by (simp add: NormalizeScore_def higherScoreLoop_def int64_div_def)
qed

text \<open>
  C6 (amended). For every batch whose maximum raw score is positive,
  \<^verbatim>\<open>NormalizeScore\<close> succeeds, keeps the node names and replaces every score by the
  quotient of \<open>score * MAX\<close> by the maximum, truncated towards zero (not rounded);
  the product is taken in \<^verbatim>\<open>int64\<close> with wrap-around (\<open>signed_take_bit 63\<close>), so the
  quotient is the exact truncated one whenever \<open>score * MAX\<close> fits in 64 bits.
\<close>

theorem NormalizeScore_truncated_quotient:
  assumes "scores \<noteq> []" and "0 < Max (sint ` Score ` set scores)"
  shows "\<exists>result. NormalizeScore scores = Inr result
          \<and> map NodeName result = map NodeName scores
          \<and> map (\<lambda>node. sint (Score node)) result
              = map (\<lambda>node. signed_take_bit 63 (sint (Score node) * sint MaxNodeScore)
                              sdiv Max (sint ` Score ` set scores)) scores
          \<and> (\<forall>i<length scores.
                 - (2 ^ 63) \<le> sint (Score (scores ! i)) * sint MaxNodeScore
                 \<and> sint (Score (scores ! i)) * sint MaxNodeScore < 2 ^ 63 \<longrightarrow>
                 sint (Score (result ! i))
                 = sint (Score (scores ! i)) * sint MaxNodeScore
                   sdiv Max (sint ` Score ` set scores))"
proof -
  let ?M = "Max (sint ` Score ` set scores)"
  let ?h = "higherScoreLoop scores 0"
  let ?q = "\<lambda>node. word_of_int (sint (Score node * MaxNodeScore) sdiv sint ?h) :: int64"
  let ?result = "map (\<lambda>node. node\<lparr>Score := ?q node\<rparr>) scores"
  have fin: "finite (sint ` Score ` set scores)" "sint ` Score ` set scores \<noteq> {}"
    using assms(1) by simp_all
  have "sint ?h = max 0 ?M"
    using fin by (simp add: higherScoreLoop_Max)
  then have h: "sint ?h = ?M" using assms(2) by simp
  then have pos: "0 < sint ?h" using assms(2) by simp
  then have "?h \<noteq> 0" by auto
  then have res: "NormalizeScore scores = Inr ?result"
    by (simp add: NormalizeScore_def rescaleLoop_nonzero)
  have q: "sint (?q node) = signed_take_bit 63 (sint (Score node) * sint MaxNodeScore) sdiv ?M"
    for node
    using sint_quotient [OF pos, of "Score node * MaxNodeScore"] h
    by (simp add: sint_word_mult)
  have names: "map NodeName ?result = map NodeName scores"
    by (simp add: comp_def)
  have vals: "map (\<lambda>node. sint (Score node)) ?result
              = map (\<lambda>node. signed_take_bit 63 (sint (Score node) * sint MaxNodeScore) sdiv ?M) scores"
  proof -
    have "map (\<lambda>node. sint (Score node)) ?result = map (\<lambda>node. sint (?q node)) scores"
      by (simp add: comp_def)
    also have "\<dots> = map (\<lambda>node. signed_take_bit 63 (sint (Score node) * sint MaxNodeScore) sdiv ?M) scores"
      by (simp only: q)
    finally show ?thesis .
  qed
  have exact: "sint (Score (?result ! i)) = sint (Score (scores ! i)) * sint MaxNodeScore sdiv ?M"
    if "i < length scores"
      and "- (2 ^ 63) \<le> sint (Score (scores ! i)) * sint MaxNodeScore"
      and "sint (Score (scores ! i)) * sint MaxNodeScore < 2 ^ 63" for i
  proof -
    have "signed_take_bit 63 (sint (Score (scores ! i)) * sint MaxNodeScore)
          = sint (Score (scores ! i)) * sint MaxNodeScore"
      using that(2,3) by (simp add: signed_take_bit_int_eq_self)
    then show ?thesis using that(1) q [of "scores ! i"] by simp
  qed
  show ?thesis
    using res names vals exact by blast
qed

theorem NormalizeScore_truncated_quotient_witness:
  "\<exists>result. NormalizeScore [\<lparr>NodeName = ''a'', Score = 3\<rparr>, \<lparr>NodeName = ''b'', Score = 2\<rparr>] = Inr result
      \<and> map NodeName result = [''a'', ''b'']
      \<and> map (\<lambda>node. sint (Score node)) result = [100, 66]"
proof -
  let ?batch = "[\<lparr>NodeName = ''a'', Score = 3\<rparr>, \<lparr>NodeName = ''b'', Score = 2 :: int64\<rparr>]"
  have ne: "?batch \<noteq> []" by simp
  have pos: "0 < Max (sint ` Score ` set ?batch)" by simp
  from NormalizeScore_truncated_quotient [OF ne pos]
  obtain result where "NormalizeScore ?batch = Inr result"
    and "map NodeName result = map NodeName ?batch"
    and "map (\<lambda>node. sint (Score node)) result
         = map (\<lambda>node. signed_take_bit 63 (sint (Score node) * sint MaxNodeScore)
                         sdiv Max (sint ` Score ` set ?batch)) ?batch"
    by blast
  then show ?thesis
    by (simp add: MaxNodeScore_def signed_divide_int_def)
qed

text \<open>
  C6 as stated fails on the batch \<open>[3, 2]\<close>: the code yields \<open>[100, 66]\<close>, rounding
  \<open>2 * 100 / 3\<close> would yield 67.
\<close>

theorem NormalizeScore_round_counterexample:
  "0 < Max (sint ` Score ` set [\<lparr>NodeName = ''a'', Score = 3\<rparr>, \<lparr>NodeName = ''b'', Score = 2\<rparr>])
   \<and> NormalizeScore [\<lparr>NodeName = ''a'', Score = 3\<rparr>, \<lparr>NodeName = ''b'', Score = 2\<rparr>]
       \<noteq> Inr [\<lparr>NodeName = ''a'', Score = word_of_int (round (3 * 100 / 3 :: real))\<rparr>,
               \<lparr>NodeName = ''b'', Score = word_of_int (round (2 * 100 / 3 :: real))\<rparr>]"
  by (simp add: NormalizeScore_def higherScoreLoop_def int64_div_def MaxNodeScore_def
      word_sless_alt signed_divide_int_def round_def)

section \<open>Properties of the query parameter builder\<close>

text \<open>
  C8. The three textual forms: the equality filter on \<open>EntitySerialNum\<close> with value
  \<^verbatim>\<open>ABC123\<close> serialises to \<^verbatim>\<open>entitySerialNum eq 'ABC123'\<close>, the \<open>Contains\<close> filter on
  \<open>EntityMake\<close> with value \<^verbatim>\<open>Dell\<close> to \<^verbatim>\<open>contains(entityMake, 'Dell')\<close>, and an \<open>In\<close>
  filter over the slice \<^verbatim>\<open>["a", "b"]\<close> to \<^verbatim>\<open><key> in ('a', 'b')\<close>, each member quoted
  on its own. All three filters are accepted by \<^verbatim>\<open>NewFilter\<close>.
\<close>

theorem GetValue_textual_forms:
  "NewFilter EntitySerialNum Equals (StringValue ''ABC123'')
     = Inr \<lparr>Key = EntitySerialNum, Operator = Equals, Value = StringValue ''ABC123''\<rparr>
   \<and> GetValue s \<lparr>Key = EntitySerialNum, Operator = Equals, Value = StringValue ''ABC123''\<rparr>
     = Inr (''entitySerialNum eq 'ABC123'' @ quote, s)
   \<and> NewFilter EntityMake Contains (StringValue ''Dell'')
     = Inr \<lparr>Key = EntityMake, Operator = Contains, Value = StringValue ''Dell''\<rparr>
   \<and> GetValue s \<lparr>Key = EntityMake, Operator = Contains, Value = StringValue ''Dell''\<rparr>
     = Inr (''contains(entityMake, 'Dell')'', s)
   \<and> NewFilter EntityID In (StringSlice a)
     = Inr \<lparr>Key = EntityID, Operator = In, Value = StringSlice a\<rparr>
   \<and> GetValue (s(a := [''a'', ''b''])) \<lparr>Key = key, Operator = In, Value = StringSlice a\<rparr>
     = Inr (key @ '' in ('a', 'b')'', s(a := [quoted ''a'', quoted ''b'']))"
  by (simp add: NewFilter_def isValidKey_def isValidOperator_def GetValue_def fmt_v_def
      formatInValues_def quoted_def quote_def
      EntityID_def EntityMake_def EntityModel_def EntityType_def EntitySerialNum_def
      EntityProductID_def LocationName_def LocationID_def LocationCity_def
      LocationState_def LocationCountry_def Name_def Equals_def Contains_def In_def)

text \<open>
  C4 (amended). For every filter that \<^verbatim>\<open>NewFilter\<close> constructs, \<^verbatim>\<open>GetValue\<close> returns
  a string whenever the operator is not \<open>In\<close> or the value is a string slice; for
  the \<open>In\<close> operator with a value of any other dynamic type the type assertion
  panics.
\<close>

theorem GetValue_after_NewFilter:
  assumes "NewFilter key operator val = Inr f"
  shows "(operator \<noteq> In \<or> (\<exists>a. val = StringSlice a) \<longrightarrow> (\<exists>str s'. GetValue s f = Inr (str, s')))
       \<and> (operator = In \<and> (\<forall>a. val \<noteq> StringSlice a) \<longrightarrow> GetValue s f = Inl InterfaceConversion)"
proof -
  from assms have f: "f = \<lparr>Key = key, Operator = operator, Value = val\<rparr>"
    by (simp add: NewFilter_def split: if_splits)
  show ?thesis
    unfolding f
    by (cases val) (auto simp: GetValue_def formatInValues_def)
qed

text \<open>
  C4 as stated fails: \<^verbatim>\<open>NewFilter\<close> accepts an \<open>In\<close> filter whose value is a plain
  string, and \<^verbatim>\<open>GetValue\<close> panics on it.
\<close>

theorem GetValue_type_assertion_counterexample:
  "NewFilter EntityID In (StringValue ''abc'')
     = Inr \<lparr>Key = EntityID, Operator = In, Value = StringValue ''abc''\<rparr>
   \<and> GetValue emptyStore \<lparr>Key = EntityID, Operator = In, Value = StringValue ''abc''\<rparr>
     = Inl InterfaceConversion"
  by (simp add: NewFilter_def isValidKey_def isValidOperator_def GetValue_def In_def)


theorem GetValue_after_NewFilter_witness:
  "(\<exists>str s'. GetValue emptyStore \<lparr>Key = EntitySerialNum, Operator = Equals, Value = OtherValue ''42''\<rparr>
               = Inr (str, s'))
   \<and> (\<exists>str s'. GetValue emptyStore \<lparr>Key = EntityID, Operator = In, Value = StringSlice 0\<rparr>
               = Inr (str, s'))
   \<and> GetValue emptyStore \<lparr>Key = EntityID, Operator = In, Value = OtherValue ''42''\<rparr>
       = Inl InterfaceConversion"
proof -
  have a: "NewFilter EntitySerialNum Equals (OtherValue ''42'')
           = Inr \<lparr>Key = EntitySerialNum, Operator = Equals, Value = OtherValue ''42''\<rparr>"
    and b: "NewFilter EntityID In (StringSlice 0)
           = Inr \<lparr>Key = EntityID, Operator = In, Value = StringSlice 0\<rparr>"
    and c: "NewFilter EntityID In (OtherValue ''42'')
           = Inr \<lparr>Key = EntityID, Operator = In, Value = OtherValue ''42''\<rparr>"
    by (simp_all add: NewFilter_def isValidKey_def isValidOperator_def)
  show ?thesis
    using GetValue_after_NewFilter [OF a, of emptyStore]
      GetValue_after_NewFilter [OF b, of emptyStore]
      GetValue_after_NewFilter [OF c, of emptyStore]
    by (simp add: Equals_def In_def)
qed

lemma grows_refl: "grows s s"
  by (simp add: grows_def list_all2_refl)

lemma grows_trans: "grows s t \<Longrightarrow> grows t u \<Longrightarrow> grows s u"
  unfolding grows_def
proof (intro allI)
  fix a
  assume st: "\<forall>a. list_all2 (\<lambda>x y. length x \<le> length y) (s a) (t a)"
    and tu: "\<forall>a. list_all2 (\<lambda>x y. length x \<le> length y) (t a) (u a)"
  from st tu have "list_all2 (\<lambda>x y. length x \<le> length y) (s a) (t a)"
    "list_all2 (\<lambda>x y. length x \<le> length y) (t a) (u a)" by simp_all
  then show "list_all2 (\<lambda>x y. length x \<le> length y) (s a) (u a)"
    by (rule list_all2_trans [rotated]) simp
qed

lemma grows_length: "grows s t \<Longrightarrow> length (t a) = length (s a)"
  using list_all2_lengthD [of "\<lambda>x y. length x \<le> length y" "s a" "t a"]
  by (simp add: grows_def)

lemma grows_quoted: "grows s (s(a := map quoted (s a)))"
  by (simp add: grows_def list_all2_refl list_all2_map2 quoted_def)

lemma GetValue_grows:
  assumes "GetValue s f = Inr (str, s')"
  shows "grows s s'"
  using assms grows_quoted [of s] grows_refl [of s]
  by (auto simp: GetValue_def formatInValues_def split: if_splits iface.splits)

lemma GetValue_no_panic_any_store:
  assumes "GetValue s f = Inr (str, s')"
  shows "\<exists>str2 t'. GetValue t f = Inr (str2, t')"
  using assms
  by (auto simp: GetValue_def formatInValues_def split: if_splits iface.splits)

lemma filterValues_grows:
  "filterValues s fs = Inr (strs, s') \<Longrightarrow> grows s s'"
proof (induction fs arbitrary: s strs)
  case Nil
  then show ?case by (simp add: grows_refl)
next
  case (Cons f rest)
  from Cons.prems obtain str s1 strs' where
    g: "GetValue s f = Inr (str, s1)" and r: "filterValues s1 rest = Inr (strs', s')"
    by (auto split: sum.splits prod.splits)
  from GetValue_grows [OF g] Cons.IH [OF r] show ?case by (rule grows_trans)
qed

lemma filterValues_no_panic_any_store:
  "filterValues s fs = Inr (strs, s') \<Longrightarrow> \<exists>strs2 t'. filterValues t fs = Inr (strs2, t')"
proof (induction fs arbitrary: s t strs)
  case Nil
  then show ?case by simp
next
  case (Cons f rest)
  from Cons.prems obtain str s1 strs' where
    g: "GetValue s f = Inr (str, s1)" and r: "filterValues s1 rest = Inr (strs', s')"
    by (auto split: sum.splits prod.splits)
  from GetValue_no_panic_any_store [OF g, of t] obtain str2 t1 where
    g2: "GetValue t f = Inr (str2, t1)" by blast
  from Cons.IH [OF r, of t1] obtain strs2 t' where "filterValues t1 rest = Inr (strs2, t')"
    by blast
  with g2 show ?case by simp
qed

lemma length_Join:
  "length (Join xs sep) = sum_list (map length xs) + (length xs - 1) * length sep"
  by (induction xs sep rule: Join.induct) simp_all

lemma sum_list_length_mono:
  "list_all2 (\<lambda>x y. length x \<le> length y) xs ys
   \<Longrightarrow> sum_list (map length xs) \<le> sum_list (map length ys)"
  by (induction rule: list_all2_induct) simp_all

lemma length_Join_mono:
  assumes "list_all2 (\<lambda>x y. length x \<le> length y) xs ys"
  shows "length (Join xs sep) \<le> length (Join ys sep)"
  using sum_list_length_mono [OF assms] list_all2_lengthD [OF assms]
  by (simp add: length_Join)

lemma length_Join_quoted:
  "length (Join (map quoted xs) sep) = length (Join xs sep) + 2 * length xs"
proof -
  have "sum_list (map length (map quoted xs)) = sum_list (map length xs) + 2 * length xs"
    by (induction xs) (simp_all add: quoted_def quote_def)
  then show ?thesis by (simp add: length_Join)
qed

lemma GetValue_In_longer:
  assumes op: "Operator f = In" and v: "Value f = StringSlice a" and ne: "s a \<noteq> []"
    and g1: "GetValue s f = Inr (str, s')" and gr: "grows s' t"
    and g2: "GetValue t f = Inr (str2, t')"
  shows "length str < length str2"
proof -
  from g1 op v have str: "str = Key f @ '' in ('' @ Join (map quoted (s a)) '', '' @ '')''"
    and s': "s' = s(a := map quoted (s a))"
    by (auto simp: GetValue_def formatInValues_def)
  from g2 op v have str2: "str2 = Key f @ '' in ('' @ Join (map quoted (t a)) '', '' @ '')''"
    by (auto simp: GetValue_def formatInValues_def)
  from gr s' have rel: "list_all2 (\<lambda>x y. length x \<le> length y) (map quoted (s a)) (t a)"
    by (auto simp: grows_def dest: spec [of _ a])
  from list_all2_lengthD [OF rel] ne have pos: "0 < length (t a)" by (cases "t a") auto
  from length_Join_mono [OF rel]
  have le: "length (Join (map quoted (s a)) '', '') \<le> length (Join (t a) '', '')" .
  have "length (Join (map quoted (t a)) '', '') = length (Join (t a) '', '') + 2 * length (t a)"
    by (rule length_Join_quoted)
  with pos le
  have "length (Join (map quoted (s a)) '', '') < length (Join (map quoted (t a)) '', '')"
    by linarith
  then show ?thesis by (simp add: str str2)
qed

lemma filterValues_twice_differ:
  assumes "filterValues s fs = Inr (strs1, s1)" and "grows s1 t"
    and "filterValues t fs = Inr (strs2, t1)"
    and "f \<in> set fs" and "Operator f = In" and "Value f = StringSlice a" and "s a \<noteq> []"
  shows "strs1 \<noteq> strs2"
  using assms
proof (induction fs arbitrary: s t strs1 strs2)
  case Nil
  then show ?case by simp
next
  case (Cons f0 rest)
  from Cons.prems(1) obtain str s' strs1' where
    g: "GetValue s f0 = Inr (str, s')" and r: "filterValues s' rest = Inr (strs1', s1)"
    and o1: "strs1 = str # strs1'"
    by (auto split: sum.splits prod.splits)
  from Cons.prems(3) obtain str2 t' strs2' where
    g2: "GetValue t f0 = Inr (str2, t')" and r2: "filterValues t' rest = Inr (strs2', t1)"
    and o2: "strs2 = str2 # strs2'"
    by (auto split: sum.splits prod.splits)
  show ?case
  proof (cases "f = f0")
    case True
    have gr: "grows s' t" using filterValues_grows [OF r] Cons.prems(2) by (rule grows_trans)
    have "length str < length str2"
      using GetValue_In_longer [of f a s str s' t str2 t'] True Cons.prems(5,6,7) g g2 gr
      by simp
    then show ?thesis using o1 o2 by auto
  next
    case False
    then have mem: "f \<in> set rest" using Cons.prems(4) by simp
    have gt: "grows s1 t'" using Cons.prems(2) GetValue_grows [OF g2] by (rule grows_trans)
    have "length (s' a) = length (s a)"
      using GetValue_grows [OF g] by (rule grows_length)
    then have ne: "s' a \<noteq> []" using Cons.prems(7) by auto
    from Cons.IH [OF r gt r2 mem Cons.prems(5,6) ne] show ?thesis using o1 o2 by simp
  qed
qed


lemma valuesOf_Add:
  "valuesOf (Add q key val) k = (if k = key then valuesOf q key @ [val] else valuesOf q k)"
  by (simp add: valuesOf_def Add_def)

lemma filtersLoop_filterValues:
  "filtersLoop s q fs
   = (case filterValues s fs of
        Inl p \<Rightarrow> Inl p
      | Inr (strs, s') \<Rightarrow> Inr (fold (\<lambda>str q'. Add q' ''filter'' str) strs q, s'))"
  by (induction fs arbitrary: s q) (simp_all split: sum.splits prod.splits)

lemma valuesOf_fold_Add:
  "valuesOf (fold (\<lambda>str q'. Add q' key str) strs q) key = valuesOf q key @ strs"
  by (induction strs arbitrary: q) (simp_all add: valuesOf_Add)

lemma valuesOf_sortsLoop:
  "valuesOf (sortsLoop q srts) ''filter'' = valuesOf q ''filter''"
  unfolding sortsLoop_def
  by (induction srts arbitrary: q) (simp_all add: valuesOf_Add)

lemma ToQueryParams_filter_values:
  assumes "ToQueryParams s p = Inr (q, s')"
  shows "filterValues s (filters p) = Inr (valuesOf q ''filter'', s')"
proof -
  from assms obtain q1 where fl: "filtersLoop s Map.empty (filters p) = Inr (q1, s')"
    and q: "valuesOf q ''filter'' = valuesOf q1 ''filter''"
    by (auto simp: ToQueryParams_def Let_def valuesOf_Add valuesOf_sortsLoop
        split: sum.splits prod.splits option.splits)
  from fl obtain strs where fv: "filterValues s (filters p) = Inr (strs, s')"
    and q1: "q1 = fold (\<lambda>str q'. Add q' ''filter'' str) strs Map.empty"
    by (auto simp: filtersLoop_filterValues split: sum.splits prod.splits)
  have "valuesOf q1 ''filter'' = strs"
    by (simp add: q1 valuesOf_fold_Add) (simp add: valuesOf_def)
  with fv q show ?thesis by simp
qed

lemma ToQueryParams_no_panic_any_store:
  assumes "ToQueryParams s p = Inr (q, s')"
  shows "\<exists>q2 t'. ToQueryParams t p = Inr (q2, t')"
proof -
  from ToQueryParams_filter_values [OF assms] filterValues_no_panic_any_store [of s "filters p" _ s' t]
  obtain strs2 t' where "filterValues t (filters p) = Inr (strs2, t')" by blast
  then show ?thesis
    by (simp add: ToQueryParams_def filtersLoop_filterValues Let_def)
qed

text \<open>
  C10 (amended). For every \<open>In\<close> filter whose value is a string slice, each call of
  \<^verbatim>\<open>GetValue\<close> overwrites the elements of that slice in place, each wrapped in one
  more pair of single quotes. When the slice is not empty, two successive calls
  return different strings, and serialising twice a \<^verbatim>\<open>Params\<close> that holds the
  filter yields different values under the query key \<^verbatim>\<open>filter\<close>.
\<close>

theorem GetValue_In_rewrites_in_place:
  assumes "Operator f = In" and "Value f = StringSlice a"
  shows "GetValue s f
         = Inr (Key f @ '' in ('' @ Join (map quoted (s a)) '', '' @ '')'',
                s(a := map quoted (s a)))
       \<and> GetValue (s(a := map quoted (s a))) f
         = Inr (Key f @ '' in ('' @ Join (map quoted (map quoted (s a))) '', '' @ '')'',
                s(a := map quoted (map quoted (s a))))
       \<and> (s a \<noteq> [] \<longrightarrow>
            Key f @ '' in ('' @ Join (map quoted (s a)) '', '' @ '')''
            \<noteq> Key f @ '' in ('' @ Join (map quoted (map quoted (s a))) '', '' @ '')'')
       \<and> (\<forall>p q1 s1. f \<in> set (filters p) \<and> s a \<noteq> [] \<and> ToQueryParams s p = Inr (q1, s1) \<longrightarrow>
            (\<exists>q2 s2. ToQueryParams s1 p = Inr (q2, s2) \<and> q2 ''filter'' \<noteq> q1 ''filter''))"
proof (intro conjI impI allI)
  show g1: "GetValue s f
         = Inr (Key f @ '' in ('' @ Join (map quoted (s a)) '', '' @ '')'',
                s(a := map quoted (s a)))"
    using assms by (simp add: GetValue_def formatInValues_def)
  show g2: "GetValue (s(a := map quoted (s a))) f
         = Inr (Key f @ '' in ('' @ Join (map quoted (map quoted (s a))) '', '' @ '')'',
                s(a := map quoted (map quoted (s a))))"
    using assms by (simp add: GetValue_def formatInValues_def)
  assume ne: "s a \<noteq> []"
  from GetValue_In_longer [OF assms ne g1 grows_refl g2]
  show "Key f @ '' in ('' @ Join (map quoted (s a)) '', '' @ '')''
        \<noteq> Key f @ '' in ('' @ Join (map quoted (map quoted (s a))) '', '' @ '')''"
    by auto
next
  fix p q1 s1
  assume h: "f \<in> set (filters p) \<and> s a \<noteq> [] \<and> ToQueryParams s p = Inr (q1, s1)"
  then have t1: "ToQueryParams s p = Inr (q1, s1)" by simp
  from ToQueryParams_no_panic_any_store [OF t1, of s1]
  obtain q2 s2 where t2: "ToQueryParams s1 p = Inr (q2, s2)" by blast
  from filterValues_twice_differ
    [OF ToQueryParams_filter_values [OF t1] grows_refl ToQueryParams_filter_values [OF t2]]
    h assms
  have "valuesOf q1 ''filter'' \<noteq> valuesOf q2 ''filter''" by blast
  then have "q2 ''filter'' \<noteq> q1 ''filter''" by (auto simp: valuesOf_def)
  with t2 show "\<exists>q2 s2. ToQueryParams s1 p = Inr (q2, s2) \<and> q2 ''filter'' \<noteq> q1 ''filter''"
    by auto
qed

theorem GetValue_In_rewrites_in_place_witness:
  "GetValue (emptyStore(0 := [''a'', ''b''])) \<lparr>Key = EntityID, Operator = In, Value = StringSlice 0\<rparr>
     = Inr (''entityId in ('a', 'b')'', emptyStore(0 := [quoted ''a'', quoted ''b'']))
   \<and> GetValue (emptyStore(0 := [quoted ''a'', quoted ''b'']))
        \<lparr>Key = EntityID, Operator = In, Value = StringSlice 0\<rparr>
     = Inr (''entityId in ('' @ quoted (quoted ''a'') @ '', '' @ quoted (quoted ''b'') @ '')'',
            emptyStore(0 := [quoted (quoted ''a''), quoted (quoted ''b'')]))
   \<and> ''entityId in ('a', 'b')''
     \<noteq> ''entityId in ('' @ quoted (quoted ''a'') @ '', '' @ quoted (quoted ''b'') @ '')''
   \<and> (\<exists>q2 s2. ToQueryParams (emptyStore(0 := [quoted ''a'', quoted ''b'']))
                 (AddFilter NewParams \<lparr>Key = EntityID, Operator = In, Value = StringSlice 0\<rparr>)
               = Inr (q2, s2)
            \<and> q2 ''filter'' \<noteq> Some [''entityId in ('a', 'b')''])"
proof -
  let ?f = "\<lparr>Key = EntityID, Operator = In, Value = StringSlice 0\<rparr>"
  let ?s = "emptyStore(0 := [''a'', ''b''])"
  let ?p = "AddFilter NewParams ?f"
  have first: "ToQueryParams ?s ?p
               = Inr (Map.empty(''filter'' \<mapsto> [''entityId in ('a', 'b')'']),
                      emptyStore(0 := [quoted ''a'', quoted ''b'']))"
    by (simp add: ToQueryParams_def AddFilter_def NewParams_def GetValue_def formatInValues_def
        sortsLoop_def Add_def quoted_def quote_def EntityID_def)
  have mem: "?f \<in> set (filters ?p)"
    by (simp add: AddFilter_def NewParams_def)
  have ne: "?s 0 \<noteq> []" by simp
  have hyps: "Operator ?f = In" "Value ?f = StringSlice 0" by simp_all
  note inst = GetValue_In_rewrites_in_place [OF hyps, of ?s]
  from inst have calls:
    "GetValue ?s ?f = Inr (''entityId in ('a', 'b')'', emptyStore(0 := [quoted ''a'', quoted ''b'']))"
    "GetValue (emptyStore(0 := [quoted ''a'', quoted ''b''])) ?f
     = Inr (''entityId in ('' @ quoted (quoted ''a'') @ '', '' @ quoted (quoted ''b'') @ '')'',
            emptyStore(0 := [quoted (quoted ''a''), quoted (quoted ''b'')]))"
    "''entityId in ('a', 'b')''
     \<noteq> ''entityId in ('' @ quoted (quoted ''a'') @ '', '' @ quoted (quoted ''b'') @ '')''"
    by (simp_all add: quoted_def quote_def EntityID_def)
  from inst mem ne first
  have "\<exists>q2 s2. ToQueryParams (emptyStore(0 := [quoted ''a'', quoted ''b''])) ?p = Inr (q2, s2)
          \<and> q2 ''filter'' \<noteq> (Map.empty(''filter'' \<mapsto> [''entityId in ('a', 'b')''])) ''filter''"
    by blast
  then have "\<exists>q2 s2. ToQueryParams (emptyStore(0 := [quoted ''a'', quoted ''b''])) ?p = Inr (q2, s2)
          \<and> q2 ''filter'' \<noteq> Some [''entityId in ('a', 'b')'']"
    by simp
  with calls show ?thesis by blast
qed

text \<open>
  C10 as stated fails for an \<open>In\<close> filter over an empty slice: both calls return
  the same string.
\<close>

theorem GetValue_In_empty_slice_counterexample:
  "Operator \<lparr>Key = EntityID, Operator = In, Value = StringSlice 0\<rparr> = In
   \<and> GetValue emptyStore \<lparr>Key = EntityID, Operator = In, Value = StringSlice 0\<rparr>
     = Inr (''entityId in ()'', emptyStore(0 := []))
   \<and> GetValue (emptyStore(0 := [])) \<lparr>Key = EntityID, Operator = In, Value = StringSlice 0\<rparr>
     = Inr (''entityId in ()'', emptyStore(0 := []))"
  by (simp add: GetValue_def formatInValues_def emptyStore_def EntityID_def)

section \<open>Properties of the score orchestrator and the token manager\<close>

text \<open>
  C9. When the usage-by-entity response has no items, the sustainability score is
  0, for every list of emission data points and every plugin configuration; the
  function has no error result.
\<close>

theorem calculateSustainabilityScore_empty_items:
  "calculateSustainabilityScore gks (usageByEntity\<lparr>Items := []\<rparr>) dataPoints = 0"
  by (simp add: calculateSustainabilityScore_def)

text \<open>
  C5. \<^verbatim>\<open>GetToken\<close> refreshes exactly when the clock is after the stored expiry. With
  an expiry that is not in the past it returns the cached token, sends no request
  and leaves the manager as it is. With an expiry in the past (as in the initial
  state, whose expiry is the zero time) it refreshes before it returns: when the
  request cannot be built nothing is sent, otherwise exactly the token request is
  sent. A 200 response with a decodable body stores the new token and expiry and
  returns the new token; a transport failure, a response with another status or an
  undecodable body returns the error and leaves the manager unchanged, and so does
  every error return.
\<close>

theorem GetToken_refresh_behaviour:
  "(let req = \<lparr>Method = ''POST'', RequestURL = URL (TokenManager.config tm),
                 ContentType = contentTypeHeader,
                 Form = [(''client_id'', ClientID (TokenManager.config tm)),
                         (''client_secret'', ClientSecret (TokenManager.config tm)),
                         (''grant_type'', grantType)]\<rparr>
    in (\<not> After now (Expiry (tokenInfo tm)) \<longrightarrow>
          GetToken now ex now' tm = (Inr (Token (tokenInfo tm)), tm, []))
     \<and> (After now (Expiry (tokenInfo tm)) \<and> ex = NewRequestFails \<longrightarrow>
          GetToken now ex now' tm = (Inl NewRequestError, tm, []))
     \<and> (After now (Expiry (tokenInfo tm)) \<and> ex = DoFails \<longrightarrow>
          GetToken now ex now' tm = (Inl TransportError, tm, [req]))
     \<and> (After now (Expiry (tokenInfo tm)) \<and> ex = Response code status body
          \<and> code \<noteq> StatusOK \<longrightarrow>
          GetToken now ex now' tm
          = (Inl (Errorf (''failed to generate token: '' @ status)), tm, [req]))
     \<and> (After now (Expiry (tokenInfo tm)) \<and> ex = Response StatusOK status None \<longrightarrow>
          GetToken now ex now' tm = (Inl DecodeError, tm, [req]))
     \<and> (After now (Expiry (tokenInfo tm)) \<and> ex = Response StatusOK status (Some tokenResp) \<longrightarrow>
          GetToken now ex now' tm
          = (Inr (AccessToken tokenResp),
             tm\<lparr>tokenInfo := \<lparr>Token = AccessToken tokenResp,
                              Expiry = now' + sint (ExpiresIn tokenResp * Second)\<rparr>\<rparr>,
             [req]))
     \<and> (\<forall>err tm' reqs. GetToken now ex now' tm = (Inl err, tm', reqs) \<longrightarrow> tm' = tm)
     \<and> (zeroTime < now \<longrightarrow> After now (Expiry (tokenInfo (NewTokenManager cfg)))))"
  unfolding Let_def
proof (intro conjI impI allI)
  assume "\<not> After now (Expiry (tokenInfo tm))"
  then show "GetToken now ex now' tm = (Inr (Token (tokenInfo tm)), tm, [])"
    by (simp add: GetToken_def)
next
  assume "After now (Expiry (tokenInfo tm)) \<and> ex = NewRequestFails"
  then show "GetToken now ex now' tm = (Inl NewRequestError, tm, [])"
    by (simp add: GetToken_def RefreshToken_def GenerateToken_def)
next
  assume "After now (Expiry (tokenInfo tm)) \<and> ex = DoFails"
  then show "GetToken now ex now' tm
    = (Inl TransportError, tm,
       [\<lparr>Method = ''POST'', RequestURL = URL (TokenManager.config tm),
         ContentType = contentTypeHeader,
         Form = [(''client_id'', ClientID (TokenManager.config tm)),
                 (''client_secret'', ClientSecret (TokenManager.config tm)),
                 (''grant_type'', grantType)]\<rparr>])"
    by (simp add: GetToken_def RefreshToken_def GenerateToken_def)
next
  assume "After now (Expiry (tokenInfo tm)) \<and> ex = Response code status body
          \<and> code \<noteq> StatusOK"
  then show "GetToken now ex now' tm
    = (Inl (Errorf (''failed to generate token: '' @ status)), tm,
       [\<lparr>Method = ''POST'', RequestURL = URL (TokenManager.config tm),
         ContentType = contentTypeHeader,
         Form = [(''client_id'', ClientID (TokenManager.config tm)),
                 (''client_secret'', ClientSecret (TokenManager.config tm)),
                 (''grant_type'', grantType)]\<rparr>])"
    by (simp add: GetToken_def RefreshToken_def GenerateToken_def)
next
  assume "After now (Expiry (tokenInfo tm)) \<and> ex = Response StatusOK status None"
  then show "GetToken now ex now' tm
    = (Inl DecodeError, tm,
       [\<lparr>Method = ''POST'', RequestURL = URL (TokenManager.config tm),
         ContentType = contentTypeHeader,
         Form = [(''client_id'', ClientID (TokenManager.config tm)),
                 (''client_secret'', ClientSecret (TokenManager.config tm)),
                 (''grant_type'', grantType)]\<rparr>])"
    by (simp add: GetToken_def RefreshToken_def GenerateToken_def)
next
  assume "After now (Expiry (tokenInfo tm)) \<and> ex = Response StatusOK status (Some tokenResp)"
  then show "GetToken now ex now' tm
    = (Inr (AccessToken tokenResp),
       tm\<lparr>tokenInfo := \<lparr>Token = AccessToken tokenResp,
                        Expiry = now' + sint (ExpiresIn tokenResp * Second)\<rparr>\<rparr>,
       [\<lparr>Method = ''POST'', RequestURL = URL (TokenManager.config tm),
         ContentType = contentTypeHeader,
         Form = [(''client_id'', ClientID (TokenManager.config tm)),
                 (''client_secret'', ClientSecret (TokenManager.config tm)),
                 (''grant_type'', grantType)]\<rparr>])"
    by (simp add: GetToken_def RefreshToken_def GenerateToken_def)
next
  fix err tm' reqs
  assume "GetToken now ex now' tm = (Inl err, tm', reqs)"
  then show "tm' = tm"
    by (auto simp: GetToken_def RefreshToken_def GenerateToken_def Let_def
        split: if_splits Exchange.splits option.splits)
next
  assume "zeroTime < now"
  then show "After now (Expiry (tokenInfo (NewTokenManager cfg)))"
    by (simp add: After_def NewTokenManager_def)
qed

theorem GetToken_refresh_behaviour_witness:
  "GetToken 10 DoFails 11
     \<lparr>TokenManager.config = \<lparr>URL = ''https://sso/token'', ClientID = ''id'', ClientSecret = ''secret''\<rparr>,
      tokenInfo = \<lparr>Token = ''cached'', Expiry = 20\<rparr>\<rparr>
   = (Inr ''cached'',
      \<lparr>TokenManager.config = \<lparr>URL = ''https://sso/token'', ClientID = ''id'', ClientSecret = ''secret''\<rparr>,
       tokenInfo = \<lparr>Token = ''cached'', Expiry = 20\<rparr>\<rparr>, [])
   \<and> GetToken 30 NewRequestFails 31
     \<lparr>TokenManager.config = \<lparr>URL = ''https://sso/token'', ClientID = ''id'', ClientSecret = ''secret''\<rparr>,
      tokenInfo = \<lparr>Token = ''cached'', Expiry = 20\<rparr>\<rparr>
   = (Inl NewRequestError,
      \<lparr>TokenManager.config = \<lparr>URL = ''https://sso/token'', ClientID = ''id'', ClientSecret = ''secret''\<rparr>,
       tokenInfo = \<lparr>Token = ''cached'', Expiry = 20\<rparr>\<rparr>, [])
   \<and> GetToken 30 DoFails 31
     \<lparr>TokenManager.config = \<lparr>URL = ''https://sso/token'', ClientID = ''id'', ClientSecret = ''secret''\<rparr>,
      tokenInfo = \<lparr>Token = ''cached'', Expiry = 20\<rparr>\<rparr>
   = (Inl TransportError,
      \<lparr>TokenManager.config = \<lparr>URL = ''https://sso/token'', ClientID = ''id'', ClientSecret = ''secret''\<rparr>,
       tokenInfo = \<lparr>Token = ''cached'', Expiry = 20\<rparr>\<rparr>,
      [\<lparr>Method = ''POST'', RequestURL = ''https://sso/token'',
        ContentType = ''application/x-www-form-urlencoded'',
        Form = [(''client_id'', ''id''), (''client_secret'', ''secret''),
                (''grant_type'', ''client_credentials'')]\<rparr>])
   \<and> GetToken 30 (Response 500 ''500 Internal Server Error'' None) 31
     \<lparr>TokenManager.config = \<lparr>URL = ''https://sso/token'', ClientID = ''id'', ClientSecret = ''secret''\<rparr>,
      tokenInfo = \<lparr>Token = ''cached'', Expiry = 20\<rparr>\<rparr>
   = (Inl (Errorf ''failed to generate token: 500 Internal Server Error''),
      \<lparr>TokenManager.config = \<lparr>URL = ''https://sso/token'', ClientID = ''id'', ClientSecret = ''secret''\<rparr>,
       tokenInfo = \<lparr>Token = ''cached'', Expiry = 20\<rparr>\<rparr>,
      [\<lparr>Method = ''POST'', RequestURL = ''https://sso/token'',
        ContentType = ''application/x-www-form-urlencoded'',
        Form = [(''client_id'', ''id''), (''client_secret'', ''secret''),
                (''grant_type'', ''client_credentials'')]\<rparr>])
   \<and> GetToken 30 (Response 200 ''200 OK'' None) 31
     \<lparr>TokenManager.config = \<lparr>URL = ''https://sso/token'', ClientID = ''id'', ClientSecret = ''secret''\<rparr>,
      tokenInfo = \<lparr>Token = ''cached'', Expiry = 20\<rparr>\<rparr>
   = (Inl DecodeError,
      \<lparr>TokenManager.config = \<lparr>URL = ''https://sso/token'', ClientID = ''id'', ClientSecret = ''secret''\<rparr>,
       tokenInfo = \<lparr>Token = ''cached'', Expiry = 20\<rparr>\<rparr>,
      [\<lparr>Method = ''POST'', RequestURL = ''https://sso/token'',
        ContentType = ''application/x-www-form-urlencoded'',
        Form = [(''client_id'', ''id''), (''client_secret'', ''secret''),
                (''grant_type'', ''client_credentials'')]\<rparr>])
   \<and> GetToken 30 (Response 200 ''200 OK''
        (Some \<lparr>AccessToken = ''fresh'', TokenType = ''Bearer'', ExpiresIn = 3600\<rparr>)) 31
     \<lparr>TokenManager.config = \<lparr>URL = ''https://sso/token'', ClientID = ''id'', ClientSecret = ''secret''\<rparr>,
      tokenInfo = \<lparr>Token = ''cached'', Expiry = 20\<rparr>\<rparr>
   = (Inr ''fresh'',
      \<lparr>TokenManager.config = \<lparr>URL = ''https://sso/token'', ClientID = ''id'', ClientSecret = ''secret''\<rparr>,
       tokenInfo = \<lparr>Token = ''fresh'', Expiry = 3600000000031\<rparr>\<rparr>,
      [\<lparr>Method = ''POST'', RequestURL = ''https://sso/token'',
        ContentType = ''application/x-www-form-urlencoded'',
        Form = [(''client_id'', ''id''), (''client_secret'', ''secret''),
                (''grant_type'', ''client_credentials'')]\<rparr>])
   \<and> After 30 (Expiry (tokenInfo (NewTokenManager
          \<lparr>URL = ''https://sso/token'', ClientID = ''id'', ClientSecret = ''secret''\<rparr>)))"
proof -
  let ?cfg = "\<lparr>URL = ''https://sso/token'', ClientID = ''id'', ClientSecret = ''secret''\<rparr>"
  let ?tm = "\<lparr>TokenManager.config = ?cfg, tokenInfo = \<lparr>Token = ''cached'', Expiry = 20\<rparr>\<rparr>"
  let ?resp = "\<lparr>AccessToken = ''fresh'', TokenType = ''Bearer'', ExpiresIn = 3600\<rparr>"
  show ?thesis
    using GetToken_refresh_behaviour
        [where now = 10 and tm = ?tm and ex = DoFails and now' = 11]
      GetToken_refresh_behaviour
        [where now = 30 and tm = ?tm and ex = NewRequestFails and now' = 31]
      GetToken_refresh_behaviour
        [where now = 30 and tm = ?tm and ex = DoFails and now' = 31]
      GetToken_refresh_behaviour
        [where now = 30 and tm = ?tm and ex = "Response 500 ''500 Internal Server Error'' None"
           and status = "''500 Internal Server Error''" and code = 500 and body = None
           and now' = 31]
      GetToken_refresh_behaviour
        [where now = 30 and tm = ?tm and ex = "Response 200 ''200 OK'' None"
           and status = "''200 OK''" and now' = 31]
      GetToken_refresh_behaviour
        [where now = 30 and tm = ?tm and ex = "Response 200 ''200 OK'' (Some ?resp)"
           and status = "''200 OK''" and tokenResp = ?resp and now' = 31 and cfg = ?cfg]
    by (simp add: After_def StatusOK_def Second_def zeroTime_def Let_def
        contentTypeHeader_def grantType_def)
qed

end
